theory Spec2Isabelle
  imports Complex_Main "HOL-Library.Char_ord" "HOL-Library.List_Lexorder"
    "HOL-Library.Product_Lexorder" "HOL-Library.Multiset"
begin

section \<open>Research Lab Manager: the tables and the statements of app.py\<close>

text \<open>
  The program is a menu shell around SQL statements. Each executor call
  (\<open>QueryExecutor.execute_query\<close>, \<open>execute_insert\<close>, \<open>execute_update\<close>) opens its own
  connection, runs one statement, commits when no exception escaped the \<open>with\<close> block and
  rolls back otherwise. The model keeps the stored tables as lists of rows, gives every
  SQL statement of the source as a function on these lists, built from a few relational
  operators, and gives every menu action that writes as a function from the answers
  typed at the prompts and the stored state to the printed messages and the new stored
  state. A listing or report method runs one SELECT and prints its rows as a table; the
  model gives such a method as the rows of its SELECT.
\<close>

subsection \<open>Values\<close>

text \<open>
  A \<open>datetime.date\<close> is compared by year, then month, then day: a triple under the
  lexicographic order. Text is compared as character lists (the collation of the database
  is taken to be the code-point order).
\<close>

type_synonym date = "nat \<times> nat \<times> nat"

text \<open>The three answers \<open>get_choice\<close> accepts for a member type.\<close>

datatype mtype = Faculty | Student | Collaborator

subsection \<open>Relational operators\<close>

text \<open>\<open>xs JOIN ys ON on\<close>: every pair of rows that satisfies the condition.\<close>

definition inner_join :: "'a list \<Rightarrow> 'b list \<Rightarrow> ('a \<Rightarrow> 'b \<Rightarrow> bool) \<Rightarrow> ('a \<times> 'b) list" where
  "inner_join xs ys on = concat (map (\<lambda>x. map (Pair x) (filter (on x) ys)) xs)"

text \<open>
  \<open>xs LEFT JOIN ys ON on\<close>: as the inner join, and a left row without a partner is kept
  once, with NULL (\<open>None\<close>) on the right.
\<close>

definition left_join :: "'a list \<Rightarrow> 'b list \<Rightarrow> ('a \<Rightarrow> 'b \<Rightarrow> bool) \<Rightarrow> ('a \<times> 'b option) list" where
  "left_join xs ys on =
     concat (map (\<lambda>x. case filter (on x) ys of
                         [] \<Rightarrow> [(x, None)]
                       | m # ms \<Rightarrow> map (\<lambda>y. (x, Some y)) (m # ms)) xs)"

text \<open>\<open>GROUP BY key\<close>: one group per distinct key, holding the rows with that key.\<close>

definition group_by :: "('r \<Rightarrow> 'k) \<Rightarrow> 'r list \<Rightarrow> ('k \<times> 'r list) list" where
  "group_by key rs = map (\<lambda>k. (k, filter (\<lambda>r. key r = k) rs)) (remdups (map key rs))"

text \<open>The non-NULL values of a column over the rows of a group.\<close>

definition non_null :: "('r \<Rightarrow> 'v option) \<Rightarrow> 'r list \<Rightarrow> 'v list" where
  "non_null col rs = concat (map (\<lambda>r. case col r of None \<Rightarrow> [] | Some v \<Rightarrow> [v]) rs)"

text \<open>\<open>COUNT(col)\<close> counts the rows where the column is not NULL.\<close>

definition count_col :: "('r \<Rightarrow> 'v option) \<Rightarrow> 'r list \<Rightarrow> nat" where
  "count_col col rs = length (non_null col rs)"

text \<open>\<open>COUNT(DISTINCT col)\<close> counts the distinct non-NULL values.\<close>

definition count_distinct :: "('r \<Rightarrow> 'v option) \<Rightarrow> 'r list \<Rightarrow> nat" where
  "count_distinct col rs = length (remdups (non_null col rs))"

text \<open>\<open>COALESCE(v, d)\<close> with a non-NULL default.\<close>

definition coalesce :: "'a option \<Rightarrow> 'a \<Rightarrow> 'a" where
  "coalesce v d = (case v of None \<Rightarrow> d | Some x \<Rightarrow> x)"

text \<open>\<open>NULLIF(n, 0)\<close>: NULL when the count is zero.\<close>

definition nullif0 :: "nat \<Rightarrow> nat option" where
  "nullif0 n = (if n = 0 then None else Some n)"

text \<open>\<open>MAX(col)\<close> over the rows of a subquery: NULL when there is no row.\<close>

definition max_agg :: "nat list \<Rightarrow> nat option" where
  "max_agg ns = (case ns of [] \<Rightarrow> None | n # ms \<Rightarrow> Some (fold max ms n))"

text \<open>
  \<open>STRING_AGG(col, sep)\<close> concatenates the non-NULL values with the separator between
  them, and is NULL when there is no such value.
\<close>

fun join_with :: "string \<Rightarrow> string list \<Rightarrow> string" where
  "join_with sep [] = []"
| "join_with sep [v] = v"
| "join_with sep (v # w # ws) = v @ sep @ join_with sep (w # ws)"

definition string_agg :: "string \<Rightarrow> string list \<Rightarrow> string option" where
  "string_agg sep vs = (case vs of [] \<Rightarrow> None | w # ws \<Rightarrow> Some (join_with sep (w # ws)))"

text \<open>
  \<open>ORDER BY\<close>: insertion of every row into a list ordered by the given comparison
  (\<open>le a b\<close>: row \<open>a\<close> may stand before row \<open>b\<close>). SQL leaves the order of rows that compare
  equal open; the model keeps some order among them, and no property below depends on it.
\<close>

fun insert_by :: "('a \<Rightarrow> 'a \<Rightarrow> bool) \<Rightarrow> 'a \<Rightarrow> 'a list \<Rightarrow> 'a list" where
  "insert_by le x [] = [x]"
| "insert_by le x (y # ys) = (if le x y then x # y # ys else y # insert_by le x ys)"

definition order_by :: "('a \<Rightarrow> 'a \<Rightarrow> bool) \<Rightarrow> 'a list \<Rightarrow> 'a list" where
  "order_by le rs = foldr (insert_by le) rs []"

text \<open>
  \<open>ROUND(q, 2)\<close> on a numeric: to two decimals, a half rounded away from zero. The
  quotient \<open>COUNT(..)::DECIMAL / n\<close> is taken exactly.
\<close>

definition round2 :: "rat \<Rightarrow> rat" where
  "round2 q = (if 0 \<le> q then of_int \<lfloor>q * 100 + 1 / 2\<rfloor> / 100
               else - (of_int \<lfloor>- q * 100 + 1 / 2\<rfloor> / 100))"

subsection \<open>Tables\<close>

record lab_member_row =
  lm_MID :: int
  lm_Name :: string
  lm_MType :: mtype
  lm_JoinDate :: date

record faculty_row =
  fac_MID :: int
  fac_Department :: string

record student_row =
  stu_MID :: int
  stu_SID :: string
  stu_Level :: string
  stu_Major :: string

record collaborator_row =
  col_MID :: int
  col_Affiliation :: string
  col_Biography :: "string option"

record project_row =
  prj_PID :: int
  prj_Title :: string
  prj_SDate :: date
  prj_EDate :: "date option"
  prj_EDuration :: int
  prj_Status :: string
  prj_LeaderMID :: "int option"

record works_row =
  wk_MID :: int
  wk_PID :: int
  wk_Role :: string
  wk_Hours :: rat

record equipment_row =
  eq_EID :: int
  eq_EName :: string
  eq_EType :: string
  eq_PDate :: date
  eq_Status :: string

record uses_row =
  us_MID :: int
  us_EID :: int
  us_SDate :: date
  us_EDate :: "date option"
  us_Purpose :: string

record grant_row =
  gr_GID :: int
  gr_Source :: string
  gr_Budget :: rat
  gr_StartDate :: date
  gr_Duration :: int

record funds_row =
  fd_GID :: int
  fd_PID :: int

record publication_row =
  pub_PubID :: int
  pub_Title :: string
  pub_PubDate :: date
  pub_Venue :: string

record publishes_row =
  ph_MID :: int
  ph_PubID :: int

text \<open>
  The stored state: the tables the statements below read or write, and the two key
  sequences behind \<open>RETURNING MID\<close> and \<open>RETURNING PID\<close>.
\<close>

record db =
  LAB_MEMBER :: "lab_member_row list"
  FACULTY :: "faculty_row list"
  STUDENT :: "student_row list"
  COLLABORATOR :: "collaborator_row list"
  PROJECT :: "project_row list"
  WORKS :: "works_row list"
  EQUIPMENT :: "equipment_row list"
  USES :: "uses_row list"
  GRANT_TABLE :: "grant_row list"
  FUNDS :: "funds_row list"
  PUBLICATION :: "publication_row list"
  PUBLISHES :: "publishes_row list"
  next_MID :: int
  next_PID :: int

subsection \<open>The storage engine\<close>

text \<open>
  The failures \<open>psycopg2.Error\<close> stands for in the model: no connection, a duplicate key,
  a reference to a missing row.
\<close>

datatype db_error = Connection_error | Unique_violation | Foreign_key_violation

text \<open>
  \<open>QueryExecutor\<close>: every call is one transaction. \<open>conn\<close> says whether
  \<open>DatabaseConnection.connect\<close> succeeds for the call; a statement that raises leaves the
  stored state as it was (\<open>__exit__\<close> rolls back) and the call returns \<open>False\<close> with the
  error; otherwise the change is committed.
\<close>

definition execute_query :: "bool \<Rightarrow> (db \<Rightarrow> 'r list) \<Rightarrow> db \<Rightarrow> db_error + 'r list" where
  "execute_query conn query d = (if conn then Inr (query d) else Inl Connection_error)"

definition execute_insert ::
  "bool \<Rightarrow> (db \<Rightarrow> db_error + int \<times> db) \<Rightarrow> db \<Rightarrow> (db_error + int) \<times> db" where
  "execute_insert conn stmt d =
     (if conn then (case stmt d of Inl e \<Rightarrow> (Inl e, d) | Inr (k, d') \<Rightarrow> (Inr k, d'))
      else (Inl Connection_error, d))"

definition execute_update :: "bool \<Rightarrow> (db \<Rightarrow> db_error + db) \<Rightarrow> db \<Rightarrow> bool \<times> db" where
  "execute_update conn stmt d =
     (if conn then (case stmt d of Inl e \<Rightarrow> (False, d) | Inr d' \<Rightarrow> (True, d'))
      else (False, d))"

text \<open>
  The table declarations are not part of app.py. The spec gives the storage engine
  surrogate integer keys, unique keys and foreign keys, and nothing else (the limit of
  three users is "a business rule, not a storage constraint"). Each INSERT below checks
  the key of its table and its references, in that order, and then appends the row.
\<close>

text \<open>
  Modelled from the spec: the declaration of LAB_MEMBER (absent from app.py). The key
  \<open>MID\<close> is drawn from a sequence and unique in the table.
\<close>

definition insert_LAB_MEMBER :: "string \<Rightarrow> mtype \<Rightarrow> date \<Rightarrow> db \<Rightarrow> db_error + int \<times> db" where
  "insert_LAB_MEMBER name mt join_date d =
     (let mid = next_MID d in
      if mid \<in> set (map lm_MID (LAB_MEMBER d)) then Inl Unique_violation
      else Inr (mid, d\<lparr>LAB_MEMBER := LAB_MEMBER d @
                          [\<lparr>lm_MID = mid, lm_Name = name, lm_MType = mt, lm_JoinDate = join_date\<rparr>],
                        next_MID := mid + 1\<rparr>))"

text \<open>
  Modelled from the spec: the declaration of FACULTY (absent from app.py). At most one
  detail row for a member, and the member exists.
\<close>

definition insert_FACULTY :: "int \<Rightarrow> string \<Rightarrow> db \<Rightarrow> db_error + db" where
  "insert_FACULTY mid dept d =
     (if mid \<in> set (map fac_MID (FACULTY d)) then Inl Unique_violation
      else if mid \<notin> set (map lm_MID (LAB_MEMBER d)) then Inl Foreign_key_violation
      else Inr (d\<lparr>FACULTY := FACULTY d @ [\<lparr>fac_MID = mid, fac_Department = dept\<rparr>]\<rparr>))"

text \<open>
  Modelled from the spec: the declaration of STUDENT (absent from app.py). At most one
  detail row for a member, and the member exists.
\<close>

definition insert_STUDENT :: "int \<Rightarrow> string \<Rightarrow> string \<Rightarrow> string \<Rightarrow> db \<Rightarrow> db_error + db" where
  "insert_STUDENT mid sid level major d =
     (if mid \<in> set (map stu_MID (STUDENT d)) then Inl Unique_violation
      else if mid \<notin> set (map lm_MID (LAB_MEMBER d)) then Inl Foreign_key_violation
      else Inr (d\<lparr>STUDENT := STUDENT d @
                  [\<lparr>stu_MID = mid, stu_SID = sid, stu_Level = level, stu_Major = major\<rparr>]\<rparr>))"

text \<open>
  Modelled from the spec: the declaration of COLLABORATOR (absent from app.py). At most
  one detail row for a member, and the member exists.
\<close>

definition insert_COLLABORATOR :: "int \<Rightarrow> string \<Rightarrow> string option \<Rightarrow> db \<Rightarrow> db_error + db" where
  "insert_COLLABORATOR mid affil bio d =
     (if mid \<in> set (map col_MID (COLLABORATOR d)) then Inl Unique_violation
      else if mid \<notin> set (map lm_MID (LAB_MEMBER d)) then Inl Foreign_key_violation
      else Inr (d\<lparr>COLLABORATOR := COLLABORATOR d @
                  [\<lparr>col_MID = mid, col_Affiliation = affil, col_Biography = bio\<rparr>]\<rparr>))"

text \<open>
  Modelled from the spec: the declaration of PROJECT (absent from app.py). The key
  \<open>PID\<close> is drawn from a sequence and unique in the table, and the leader references a
  lab member.
\<close>

definition insert_PROJECT ::
  "string \<Rightarrow> date \<Rightarrow> date option \<Rightarrow> int \<Rightarrow> string \<Rightarrow> int \<Rightarrow> db \<Rightarrow> db_error + int \<times> db" where
  "insert_PROJECT title start_date end_date duration status leader d =
     (let pid = next_PID d in
      if pid \<in> set (map prj_PID (PROJECT d)) then Inl Unique_violation
      else if leader \<notin> set (map lm_MID (LAB_MEMBER d)) then Inl Foreign_key_violation
      else Inr (pid, d\<lparr>PROJECT := PROJECT d @
                          [\<lparr>prj_PID = pid, prj_Title = title, prj_SDate = start_date,
                            prj_EDate = end_date, prj_EDuration = duration,
                            prj_Status = status, prj_LeaderMID = Some leader\<rparr>],
                        next_PID := pid + 1\<rparr>))"

text \<open>
  Modelled from the spec: the declaration of WORKS (absent from app.py), with the key
  (MID, PID) that the statement names and references to the member and the project. The
  statement is
  \<open>INSERT INTO WORKS ... ON CONFLICT (MID, PID) DO UPDATE SET Role = EXCLUDED.Role,
  Hours = EXCLUDED.Hours\<close>: a row with the same (MID, PID) takes the new role and hours
  where it stands; without such a row the new row is checked and appended.
\<close>

definition upsert_WORKS :: "works_row \<Rightarrow> db \<Rightarrow> db_error + db" where
  "upsert_WORKS r d =
     (if (wk_MID r, wk_PID r) \<in> set (map (\<lambda>w. (wk_MID w, wk_PID w)) (WORKS d))
      then Inr (d\<lparr>WORKS := map (\<lambda>w. if wk_MID w = wk_MID r \<and> wk_PID w = wk_PID r
                                     then w\<lparr>wk_Role := wk_Role r, wk_Hours := wk_Hours r\<rparr>
                                     else w) (WORKS d)\<rparr>)
      else if wk_MID r \<notin> set (map lm_MID (LAB_MEMBER d)) then Inl Foreign_key_violation
      else if wk_PID r \<notin> set (map prj_PID (PROJECT d)) then Inl Foreign_key_violation
      else Inr (d\<lparr>WORKS := WORKS d @ [r]\<rparr>))"

text \<open>
  Modelled from the spec: the declaration of USES (absent from app.py). The key is
  (MID, EID, SDate), the member and the equipment exist, and the table has no other
  constraint.
\<close>

definition insert_USES :: "uses_row \<Rightarrow> db \<Rightarrow> db_error + db" where
  "insert_USES r d =
     (if (us_MID r, us_EID r, us_SDate r)
           \<in> set (map (\<lambda>u. (us_MID u, us_EID u, us_SDate u)) (USES d))
      then Inl Unique_violation
      else if us_MID r \<notin> set (map lm_MID (LAB_MEMBER d)) then Inl Foreign_key_violation
      else if us_EID r \<notin> set (map eq_EID (EQUIPMENT d)) then Inl Foreign_key_violation
      else Inr (d\<lparr>USES := USES d @ [r]\<rparr>))"

subsection \<open>What the shell prints\<close>

text \<open>
  The messages of the actions below, one constructor for each \<open>print_success\<close>,
  \<open>print_error\<close>, \<open>print_warning\<close> and each table shown before a prompt.
\<close>

datatype message =
    Equipment_table "(int \<times> string \<times> string) list"
  | Usage_recorded
  | Failed
  | Member_added string int
  | Failed_to_add_member db_error
  | Details_may_be_incomplete
  | Faculty_table "(int \<times> string \<times> string) list"
  | No_faculty_found
  | Project_created string int
  | Failed_to_create_project db_error
  | Member_assigned int
  | Assignment_failed

subsection \<open>EquipmentManager.add_usage\<close>

text \<open>
  The predicate of every statement that selects current users:
  \<open>u.EDate IS NULL OR u.EDate >= CURRENT_DATE\<close>.
\<close>

definition usage_active :: "date \<Rightarrow> uses_row \<Rightarrow> bool" where
  "usage_active today u = (case us_EDate u of None \<Rightarrow> True | Some e \<Rightarrow> today \<le> e)"

text \<open>
  The number of current usage records of an equipment: its USES rows that satisfy the
  predicate. Where every usage row references a lab member, this is the number
  \<open>get_equipment_status\<close> prints in \<open>Count: n/3\<close>.
\<close>

definition current_users :: "date \<Rightarrow> db \<Rightarrow> int \<Rightarrow> nat" where
  "current_users today d eid =
     length (filter (\<lambda>u. us_EID u = eid \<and> usage_active today u) (USES d))"

text \<open>
  \<open>SELECT EID AS eid, EName AS name, Status AS status FROM EQUIPMENT
  WHERE Status != 'Retired' ORDER BY EID\<close>
\<close>

definition equip_query :: "db \<Rightarrow> (int \<times> string \<times> string) list" where
  "equip_query d =
     map (\<lambda>e. (eq_EID e, eq_EName e, eq_Status e))
       (order_by (\<lambda>a b. eq_EID a \<le> eq_EID b)
          (filter (\<lambda>e. eq_Status e \<noteq> ''Retired'') (EQUIPMENT d)))"

text \<open>
  The answers at the prompts of \<open>add_usage\<close>, as the input helpers return them: \<open>None\<close>
  for an empty or interrupted answer, the empty string for no purpose.
\<close>

record add_usage_in =
  au_eid :: "int option"
  au_mid :: "int option"
  au_sdate :: "date option"
  au_edate :: "date option"
  au_purpose :: string

definition add_usage ::
  "date \<Rightarrow> bool \<Rightarrow> bool \<Rightarrow> add_usage_in \<Rightarrow> db \<Rightarrow> message list \<times> db" where
  "add_usage today conn1 conn2 i d =
     (let shown = (case execute_query conn1 equip_query d of
                     Inl e \<Rightarrow> []
                   | Inr equipment \<Rightarrow> if equipment \<noteq> [] then [Equipment_table equipment] else [])
      in case au_eid i of None \<Rightarrow> (shown, d) | Some eid \<Rightarrow>
         (case au_mid i of None \<Rightarrow> (shown, d) | Some mid \<Rightarrow>
            (let sdate = (case au_sdate i of None \<Rightarrow> today | Some s \<Rightarrow> s);
                 edate = au_edate i;
                 purpose = au_purpose i
             in if purpose = [] then (shown, d)
                else (case execute_update conn2
                             (insert_USES \<lparr>us_MID = mid, us_EID = eid, us_SDate = sdate,
                                            us_EDate = edate, us_Purpose = purpose\<rparr>) d of
                        (success, d') \<Rightarrow>
                          (shown @ [if success then Usage_recorded else Failed], d')))))"

subsection \<open>MemberManager.add_member\<close>

record add_member_in =
  am_name :: string
  am_mtype :: "mtype option"
  am_join_date :: "date option"
  am_dept :: string
  am_sid :: string
  am_level :: "string option"
  am_major :: string
  am_affil :: string
  am_bio :: string

definition add_member ::
  "date \<Rightarrow> bool \<Rightarrow> bool \<Rightarrow> add_member_in \<Rightarrow> db \<Rightarrow> message list \<times> db" where
  "add_member today conn1 conn2 i d =
     (let name = am_name i in
      if name = [] then ([], d)
      else case am_mtype i of None \<Rightarrow> ([], d) | Some mt \<Rightarrow>
        (let join_date = (case am_join_date i of None \<Rightarrow> today | Some j \<Rightarrow> j) in
         case execute_insert conn1 (insert_LAB_MEMBER name mt join_date) d of
           (Inl e, d1) \<Rightarrow> ([Failed_to_add_member e], d1)
         | (Inr mid, d1) \<Rightarrow>
            (case (case mt of
                     Faculty \<Rightarrow>
                       if am_dept i \<noteq> []
                       then execute_update conn2 (insert_FACULTY mid (am_dept i)) d1
                       else (False, d1)
                   | Student \<Rightarrow>
                       (case am_level i of
                          None \<Rightarrow> (False, d1)
                        | Some level \<Rightarrow>
                            if am_sid i \<noteq> [] \<and> level \<noteq> [] \<and> am_major i \<noteq> []
                            then execute_update conn2
                                   (insert_STUDENT mid (am_sid i) level (am_major i)) d1
                            else (False, d1))
                   | Collaborator \<Rightarrow>
                       if am_affil i \<noteq> []
                       then execute_update conn2
                              (insert_COLLABORATOR mid (am_affil i)
                                 (if am_bio i = [] then None else Some (am_bio i))) d1
                       else (False, d1)) of
               (success2, d2) \<Rightarrow>
                 (if success2 then [Member_added name mid] else [Details_may_be_incomplete],
                  d2))))"

subsection \<open>ProjectManager._assign_team and ProjectManager.add_project\<close>

text \<open>
  One round of the loop of \<open>_assign_team\<close>: the answers at its three prompts, and whether
  the connection of its statement succeeds. The loop ends at the answer 0, at an empty
  answer, and at the end of the input (where \<open>get_int_input\<close> returns \<open>None\<close>).
\<close>

record assign_in =
  as_mid :: "int option"
  as_role :: string
  as_hours :: "rat option"
  as_conn :: bool

fun assign_team :: "int \<Rightarrow> assign_in list \<Rightarrow> db \<Rightarrow> message list \<times> db" where
  "assign_team pid [] d = ([], d)"
| "assign_team pid (a # rest) d =
     (case as_mid a of None \<Rightarrow> ([], d) | Some mid \<Rightarrow>
        if mid = 0 then ([], d)
        else if as_role a = [] then assign_team pid rest d
        else (case as_hours a of None \<Rightarrow> assign_team pid rest d | Some hours \<Rightarrow>
                (case execute_update (as_conn a)
                        (upsert_WORKS \<lparr>wk_MID = mid, wk_PID = pid, wk_Role = as_role a,
                                        wk_Hours = hours\<rparr>) d of
                   (success, d') \<Rightarrow>
                     (case assign_team pid rest d' of
                        (msgs, d'') \<Rightarrow>
                          ((if success then Member_assigned mid else Assignment_failed) # msgs,
                           d'')))))"

text \<open>
  \<open>SELECT lm.MID AS mid, lm.Name AS name, f.Department AS dept
  FROM LAB_MEMBER lm JOIN FACULTY f ON lm.MID = f.MID ORDER BY lm.Name\<close>
\<close>

definition faculty_query :: "db \<Rightarrow> (int \<times> string \<times> string) list" where
  "faculty_query d =
     map (\<lambda>(lm, f). (lm_MID lm, lm_Name lm, fac_Department f))
       (order_by (\<lambda>(lm, f) (lm', f'). lm_Name lm \<le> lm_Name lm')
          (inner_join (LAB_MEMBER d) (FACULTY d) (\<lambda>lm f. lm_MID lm = fac_MID f)))"

record add_project_in =
  ap_title :: string
  ap_start_date :: "date option"
  ap_end_date :: "date option"
  ap_duration :: "int option"
  ap_status :: "string option"
  ap_leader :: "int option"
  ap_assign_now :: bool
  ap_team :: "assign_in list"

definition add_project ::
  "bool \<Rightarrow> bool \<Rightarrow> add_project_in \<Rightarrow> db \<Rightarrow> message list \<times> db" where
  "add_project conn1 conn2 i d =
     (let title = ap_title i in
      if title = [] then ([], d)
      else case ap_start_date i of None \<Rightarrow> ([], d) | Some start_date \<Rightarrow>
        (let end_date = ap_end_date i in
         case ap_duration i of None \<Rightarrow> ([], d) | Some duration \<Rightarrow>
           (case ap_status i of None \<Rightarrow> ([], d) | Some status \<Rightarrow>
              (if status = [] then ([], d)
               else case execute_query conn1 faculty_query d of
                 Inl e \<Rightarrow> ([No_faculty_found], d)
               | Inr faculty \<Rightarrow>
                   if faculty = [] then ([No_faculty_found], d)
                   else (case ap_leader i of
                           None \<Rightarrow> ([Faculty_table faculty], d)
                         | Some leader \<Rightarrow>
                             (case execute_insert conn2
                                     (insert_PROJECT title start_date end_date duration
                                        status leader) d of
                                (Inl e, d1) \<Rightarrow>
                                  ([Faculty_table faculty, Failed_to_create_project e], d1)
                              | (Inr pid, d1) \<Rightarrow>
                                  if ap_assign_now i
                                  then (case assign_team pid (ap_team i) d1 of
                                          (msgs, d2) \<Rightarrow>
                                            ([Faculty_table faculty, Project_created title pid]
                                               @ msgs, d2))
                                  else ([Faculty_table faculty, Project_created title pid],
                                        d1)))))))"

subsection \<open>ProjectManager.list_all_projects\<close>

text \<open>
  \<open>SELECT p.PID, p.Title, p.Status, p.SDate, p.EDate, COALESCE(lm.Name, 'Unassigned')
  FROM PROJECT p LEFT JOIN LAB_MEMBER lm ON p.LeaderMID = lm.MID
  ORDER BY p.Status, p.SDate DESC\<close>. A NULL leader equals no key.
\<close>

definition status_then_start_desc :: "project_row \<Rightarrow> project_row \<Rightarrow> bool" where
  "status_then_start_desc p q =
     (prj_Status p < prj_Status q \<or> (prj_Status p = prj_Status q \<and> prj_SDate q \<le> prj_SDate p))"

definition list_all_projects ::
  "db \<Rightarrow> (int \<times> string \<times> string \<times> date \<times> date option \<times> string) list" where
  "list_all_projects d =
     map (\<lambda>(p, lm). (prj_PID p, prj_Title p, prj_Status p, prj_SDate p, prj_EDate p,
                       coalesce (map_option lm_Name lm) ''Unassigned''))
       (order_by (\<lambda>(p, lm) (q, lm'). status_then_start_desc p q)
          (left_join (PROJECT d) (LAB_MEMBER d) (\<lambda>p lm. prj_LeaderMID p = Some (lm_MID lm))))"

subsection \<open>The reports of ReportManager\<close>

text \<open>
  The common table expression of \<open>member_with_most_publications\<close>:
  \<open>SELECT lm.MID, lm.Name, lm.MType, COUNT(p.PubID) AS pub_count
  FROM LAB_MEMBER lm LEFT JOIN PUBLISHES p ON lm.MID = p.MID
  GROUP BY lm.MID, lm.Name, lm.MType\<close>
\<close>

definition pub_counts :: "db \<Rightarrow> (int \<times> string \<times> mtype \<times> nat) list" where
  "pub_counts d =
     map (\<lambda>((mid, name, mt), rows).
            (mid, name, mt, count_col (\<lambda>(lm, p). map_option ph_PubID p) rows))
       (group_by (\<lambda>(lm, p). (lm_MID lm, lm_Name lm, lm_MType lm))
          (left_join (LAB_MEMBER d) (PUBLISHES d) (\<lambda>lm p. lm_MID lm = ph_MID p)))"

text \<open>
  \<open>SELECT * FROM pub_counts WHERE pub_count = (SELECT MAX(pub_count) FROM pub_counts)
  ORDER BY name\<close>. A comparison with NULL selects no row.
\<close>

definition member_with_most_publications :: "db \<Rightarrow> (int \<times> string \<times> mtype \<times> nat) list" where
  "member_with_most_publications d =
     order_by (\<lambda>(mid, name, mt, n) (mid', name', mt', n'). name \<le> name')
       (filter (\<lambda>(mid, name, mt, n).
                  Some n = max_agg (map (\<lambda>(mid, name, mt, n). n) (pub_counts d)))
          (pub_counts d))"

text \<open>
  \<open>SELECT s.Major, COUNT(DISTINCT s.MID) AS students, COUNT(p.PubID) AS total_pubs,
  ROUND(COUNT(p.PubID)::DECIMAL / NULLIF(COUNT(DISTINCT s.MID), 0), 2) AS avg_pubs
  FROM STUDENT s LEFT JOIN PUBLISHES p ON s.MID = p.MID
  GROUP BY s.Major ORDER BY avg_pubs DESC\<close>. A division by NULL is NULL, and a descending
  order puts NULL first.
\<close>

definition avg_desc :: "rat option \<Rightarrow> rat option \<Rightarrow> bool" where
  "avg_desc a b = (case a of None \<Rightarrow> True
                   | Some x \<Rightarrow> (case b of None \<Rightarrow> False | Some y \<Rightarrow> y \<le> x))"

definition avg_publications_by_major :: "db \<Rightarrow> (string \<times> nat \<times> nat \<times> rat option) list" where
  "avg_publications_by_major d =
     order_by (\<lambda>(major, students, total_pubs, avg_pubs) (major', students', total_pubs', avg_pubs').
                 avg_desc avg_pubs avg_pubs')
       (map (\<lambda>(major, rows).
               (major,
                count_distinct (\<lambda>(s, p). Some (stu_MID s)) rows,
                count_col (\<lambda>(s, p). map_option ph_PubID p) rows,
                map_option (\<lambda>n. round2 (of_nat (count_col (\<lambda>(s, p). map_option ph_PubID p) rows)
                                          / of_nat n))
                  (nullif0 (count_distinct (\<lambda>(s, p). Some (stu_MID s)) rows))))
          (group_by (\<lambda>(s, p). stu_Major s)
             (left_join (STUDENT d) (PUBLISHES d) (\<lambda>s p. stu_MID s = ph_MID p))))"

text \<open>
  The WHERE clause of both statements of \<open>funded_active_projects_in_period\<close>:
  \<open>p.SDate <= %s AND (p.EDate IS NULL OR p.EDate >= %s)\<close>, the parameters being
  \<open>(end, start)\<close>.
\<close>

definition active_in_period :: "date \<Rightarrow> date \<Rightarrow> project_row \<Rightarrow> bool" where
  "active_in_period start end p =
     (prj_SDate p \<le> end \<and> (case prj_EDate p of None \<Rightarrow> True | Some e \<Rightarrow> start \<le> e))"

text \<open>
  \<open>SELECT COUNT(DISTINCT p.PID) AS count FROM PROJECT p JOIN FUNDS f ON p.PID = f.PID
  WHERE ...\<close>
\<close>

definition funded_active_count :: "db \<Rightarrow> date \<Rightarrow> date \<Rightarrow> nat" where
  "funded_active_count d start end =
     count_distinct (\<lambda>(p, f). Some (prj_PID p))
       (filter (\<lambda>(p, f). active_in_period start end p)
          (inner_join (PROJECT d) (FUNDS d) (\<lambda>p f. prj_PID p = fd_PID f)))"

text \<open>
  \<open>list_all_grants\<close>:
  \<open>SELECT g.GID, g.Source, g.Budget, g.StartDate, g.Duration,
  COALESCE(STRING_AGG(p.Title, ', '), 'None') AS projects
  FROM GRANT_TABLE g LEFT JOIN FUNDS f ON g.GID = f.GID LEFT JOIN PROJECT p ON f.PID = p.PID
  GROUP BY g.GID, g.Source, g.Budget, g.StartDate, g.Duration ORDER BY g.StartDate DESC\<close>.
  The aggregate has no DISTINCT and no order of its own: it takes the titles in the order
  of the joined rows.
\<close>

definition list_all_grants :: "db \<Rightarrow> (int \<times> string \<times> rat \<times> date \<times> int \<times> string) list" where
  "list_all_grants d =
     order_by (\<lambda>(gid, source, budget, start_date, rest) (gid', source', budget', start_date', rest').
                 start_date' \<le> start_date)
       (map (\<lambda>((gid, source, budget, start_date, duration), rows).
               (gid, source, budget, start_date, duration,
                coalesce (string_agg '', ''
                            (non_null (\<lambda>((g, f), p). map_option prj_Title p) rows))
                  ''None''))
          (group_by (\<lambda>((g, f), p). (gr_GID g, gr_Source g, gr_Budget g, gr_StartDate g,
                                      gr_Duration g))
             (left_join
                (left_join (GRANT_TABLE d) (FUNDS d) (\<lambda>g f. gr_GID g = fd_GID f))
                (PROJECT d)
                (\<lambda>(g, f) p. case f of None \<Rightarrow> False | Some f' \<Rightarrow> fd_PID f' = prj_PID p))))"

text \<open>
  \<open>list_all_publications\<close>:
  \<open>SELECT pub.PubID, pub.Title, pub.PubDate, pub.Venue,
  COALESCE(STRING_AGG(lm.Name, ', ' ORDER BY lm.Name), 'No authors') AS authors
  FROM PUBLICATION pub LEFT JOIN PUBLISHES p ON pub.PubID = p.PubID
  LEFT JOIN LAB_MEMBER lm ON p.MID = lm.MID
  GROUP BY pub.PubID, pub.Title, pub.PubDate, pub.Venue ORDER BY pub.PubDate DESC\<close>.
  The aggregate orders the names and has no DISTINCT.
\<close>

definition list_all_publications :: "db \<Rightarrow> (int \<times> string \<times> date \<times> string \<times> string) list" where
  "list_all_publications d =
     order_by (\<lambda>(pubid, title, pdate, rest) (pubid', title', pdate', rest'). pdate' \<le> pdate)
       (map (\<lambda>((pubid, title, pdate, venue), rows).
               (pubid, title, pdate, venue,
                coalesce (string_agg '', ''
                            (order_by (\<le>)
                               (non_null (\<lambda>((pub, p), lm). map_option lm_Name lm) rows)))
                  ''No authors''))
          (group_by (\<lambda>((pub, p), lm). (pub_PubID pub, pub_Title pub, pub_PubDate pub,
                                        pub_Venue pub))
             (left_join
                (left_join (PUBLICATION d) (PUBLISHES d) (\<lambda>pub p. pub_PubID pub = ph_PubID p))
                (LAB_MEMBER d)
                (\<lambda>(pub, p) lm. case p of None \<Rightarrow> False | Some p' \<Rightarrow> ph_MID p' = lm_MID lm))))"

subsection \<open>Stored states used as examples\<close>

definition empty_db :: db where
  "empty_db = \<lparr>LAB_MEMBER = [], FACULTY = [], STUDENT = [], COLLABORATOR = [], PROJECT = [],
               WORKS = [], EQUIPMENT = [], USES = [], GRANT_TABLE = [], FUNDS = [],
               PUBLICATION = [], PUBLISHES = [], next_MID = 1, next_PID = 1\<rparr>"

definition period_db :: db where
  "period_db = empty_db
     \<lparr>PROJECT := [\<lparr>prj_PID = 1, prj_Title = ''Alpha'', prj_SDate = (2023, 1, 1),
                   prj_EDate = Some (2023, 6, 30), prj_EDuration = 6, prj_Status = ''Active'',
                   prj_LeaderMID = Some 1\<rparr>],
      FUNDS := [\<lparr>fd_GID = 1, fd_PID = 1\<rparr>, \<lparr>fd_GID = 2, fd_PID = 1\<rparr>]\<rparr>"

text \<open>
  Four members, a microscope in use and a retired centrifuge; on 2024-05-01 the microscope
  has three current users (one open record, two that end later).
\<close>

definition busy_db :: db where
  "busy_db = empty_db
     \<lparr>LAB_MEMBER :=
        [\<lparr>lm_MID = 1, lm_Name = ''Ada'', lm_MType = Faculty, lm_JoinDate = (2020, 9, 1)\<rparr>,
         \<lparr>lm_MID = 2, lm_Name = ''Ben'', lm_MType = Student, lm_JoinDate = (2021, 9, 1)\<rparr>,
         \<lparr>lm_MID = 3, lm_Name = ''Cleo'', lm_MType = Student, lm_JoinDate = (2022, 9, 1)\<rparr>,
         \<lparr>lm_MID = 4, lm_Name = ''Dan'', lm_MType = Collaborator, lm_JoinDate = (2023, 1, 9)\<rparr>],
      EQUIPMENT :=
        [\<lparr>eq_EID = 1, eq_EName = ''Microscope'', eq_EType = ''Optics'',
          eq_PDate = (2019, 3, 1), eq_Status = ''In Use''\<rparr>,
         \<lparr>eq_EID = 2, eq_EName = ''Centrifuge'', eq_EType = ''Bench'',
          eq_PDate = (2010, 3, 1), eq_Status = ''Retired''\<rparr>],
      USES :=
        [\<lparr>us_MID = 1, us_EID = 1, us_SDate = (2024, 4, 1), us_EDate = None,
          us_Purpose = ''imaging''\<rparr>,
         \<lparr>us_MID = 2, us_EID = 1, us_SDate = (2024, 4, 2), us_EDate = Some (2024, 6, 1),
          us_Purpose = ''thesis''\<rparr>,
         \<lparr>us_MID = 3, us_EID = 1, us_SDate = (2024, 4, 3), us_EDate = Some (2024, 5, 1),
          us_Purpose = ''course''\<rparr>],
      next_MID := 5\<rparr>"

definition fourth_user :: add_usage_in where
  "fourth_user = \<lparr>au_eid = Some 1, au_mid = Some 4, au_sdate = None, au_edate = None,
                   au_purpose = ''calibration''\<rparr>"

definition retired_user :: add_usage_in where
  "retired_user = \<lparr>au_eid = Some 2, au_mid = Some 4, au_sdate = Some (2024, 5, 2),
                    au_edate = None, au_purpose = ''spare parts''\<rparr>"

text \<open>
  A detail of the shape its member type requires, as the prompts of \<open>add_member\<close> ask
  for it: a department; a student id, one of the five levels and a major; an affiliation.
\<close>

definition valid_detail :: "mtype \<Rightarrow> add_member_in \<Rightarrow> bool" where
  "valid_detail mt i =
     (case mt of
        Faculty \<Rightarrow> am_dept i \<noteq> []
      | Student \<Rightarrow> am_sid i \<noteq> [] \<and> am_major i \<noteq> [] \<and>
          (case am_level i of None \<Rightarrow> False
           | Some l \<Rightarrow> l \<in> set [''Freshman'', ''Sophomore'', ''Junior'', ''Senior'', ''Graduate''])
      | Collaborator \<Rightarrow> am_affil i \<noteq> [])"

text \<open>The number of rows a member has in the detail table of a member type.\<close>

definition detail_count :: "db \<Rightarrow> int \<Rightarrow> mtype \<Rightarrow> nat" where
  "detail_count d mid mt =
     (case mt of
        Faculty \<Rightarrow> length (filter (\<lambda>r. fac_MID r = mid) (FACULTY d))
      | Student \<Rightarrow> length (filter (\<lambda>r. stu_MID r = mid) (STUDENT d))
      | Collaborator \<Rightarrow> length (filter (\<lambda>r. col_MID r = mid) (COLLABORATOR d)))"

definition new_faculty :: add_member_in where
  "new_faculty = \<lparr>am_name = ''Eve'', am_mtype = Some Faculty, am_join_date = None,
                   am_dept = ''Physics'', am_sid = [], am_level = None, am_major = [],
                   am_affil = [], am_bio = []\<rparr>"

definition new_student :: add_member_in where
  "new_student = \<lparr>am_name = ''Finn'', am_mtype = Some Student,
                   am_join_date = Some (2024, 9, 1), am_dept = [], am_sid = ''S-1007'',
                   am_level = Some ''Graduate'', am_major = ''Physics'', am_affil = [],
                   am_bio = []\<rparr>"

text \<open>The same laboratory with Ada entered as faculty of the physics department.\<close>

definition faculty_db :: db where
  "faculty_db = busy_db\<lparr>FACULTY := [\<lparr>fac_MID = 1, fac_Department = ''Physics''\<rparr>],
                         STUDENT := [\<lparr>stu_MID = 2, stu_SID = ''S-1001'', stu_Level = ''Senior'',
                                       stu_Major = ''Physics''\<rparr>,
                                     \<lparr>stu_MID = 3, stu_SID = ''S-1002'', stu_Level = ''Junior'',
                                       stu_Major = ''Physics''\<rparr>]\<rparr>"

definition backwards_project :: add_project_in where
  "backwards_project = \<lparr>ap_title = ''Beta'', ap_start_date = Some (2024, 1, 1),
                         ap_end_date = Some (2023, 1, 1), ap_duration = Some 12,
                         ap_status = Some ''Active'', ap_leader = Some 1,
                         ap_assign_now = False, ap_team = []\<rparr>"

text \<open>A project led by Ada, on which Ben already works as an analyst.\<close>

definition project_db :: db where
  "project_db = faculty_db
     \<lparr>PROJECT := [\<lparr>prj_PID = 1, prj_Title = ''Alpha'', prj_SDate = (2023, 1, 1),
                   prj_EDate = None, prj_EDuration = 24, prj_Status = ''Active'',
                   prj_LeaderMID = Some 1\<rparr>],
      WORKS := [\<lparr>wk_MID = 2, wk_PID = 1, wk_Role = ''Analyst'', wk_Hours = 10\<rparr>],
      next_PID := 2\<rparr>"

definition assign_twice :: "int \<Rightarrow> string \<Rightarrow> rat \<Rightarrow> string \<Rightarrow> rat \<Rightarrow> assign_in list" where
  "assign_twice mid role1 hours1 role2 hours2 =
     [\<lparr>as_mid = Some mid, as_role = role1, as_hours = Some hours1, as_conn = True\<rparr>,
      \<lparr>as_mid = Some mid, as_role = role2, as_hours = Some hours2, as_conn = True\<rparr>]"

text \<open>Ada and Ben with three publications each, Cleo with one, Dan with none.\<close>

definition pubs_db :: db where
  "pubs_db = faculty_db
     \<lparr>PUBLICATION :=
        [\<lparr>pub_PubID = 1, pub_Title = ''Lenses'', pub_PubDate = (2022, 3, 1), pub_Venue = ''Optica''\<rparr>,
         \<lparr>pub_PubID = 2, pub_Title = ''Mirrors'', pub_PubDate = (2023, 3, 1), pub_Venue = ''Optica''\<rparr>,
         \<lparr>pub_PubID = 3, pub_Title = ''Prisms'', pub_PubDate = (2024, 3, 1), pub_Venue = ''Nature''\<rparr>,
         \<lparr>pub_PubID = 4, pub_Title = ''Drafts'', pub_PubDate = (2024, 4, 1), pub_Venue = ''Notes''\<rparr>],
      PUBLISHES :=
        [\<lparr>ph_MID = 2, ph_PubID = 1\<rparr>, \<lparr>ph_MID = 1, ph_PubID = 1\<rparr>,
         \<lparr>ph_MID = 1, ph_PubID = 2\<rparr>, \<lparr>ph_MID = 2, ph_PubID = 2\<rparr>,
         \<lparr>ph_MID = 3, ph_PubID = 3\<rparr>, \<lparr>ph_MID = 2, ph_PubID = 3\<rparr>,
         \<lparr>ph_MID = 1, ph_PubID = 3\<rparr>]\<rparr>"

text \<open>
  The words of the average report: the students of a major, and the number of PUBLISHES
  rows of a member.
\<close>

definition students_in_major :: "db \<Rightarrow> string \<Rightarrow> student_row list" where
  "students_in_major d m = filter (\<lambda>s. stu_Major s = m) (STUDENT d)"

definition publication_count :: "db \<Rightarrow> int \<Rightarrow> nat" where
  "publication_count d mid = length (filter (\<lambda>p. ph_MID p = mid) (PUBLISHES d))"

text \<open>The physics students Ben, with two publications, and Cleo, with none.\<close>

definition physics_db :: db where
  "physics_db = faculty_db
     \<lparr>PUBLICATION :=
        [\<lparr>pub_PubID = 1, pub_Title = ''Lenses'', pub_PubDate = (2022, 3, 1), pub_Venue = ''Optica''\<rparr>,
         \<lparr>pub_PubID = 2, pub_Title = ''Mirrors'', pub_PubDate = (2023, 3, 1), pub_Venue = ''Optica''\<rparr>],
      PUBLISHES := [\<lparr>ph_MID = 2, ph_PubID = 1\<rparr>, \<lparr>ph_MID = 2, ph_PubID = 2\<rparr>]\<rparr>"

text \<open>
  The leader column the roster owes a project: the name of the member the project's
  leader key resolves to, and \<open>Unassigned\<close> when it resolves to none.
\<close>

definition leader_name :: "db \<Rightarrow> project_row \<Rightarrow> string" where
  "leader_name d p =
     (case prj_LeaderMID p of
        None \<Rightarrow> ''Unassigned''
      | Some mid \<Rightarrow> (case filter (\<lambda>lm. lm_MID lm = mid) (LAB_MEMBER d) of
                      [] \<Rightarrow> ''Unassigned''
                    | lm # rest \<Rightarrow> lm_Name lm))"

text \<open>Three projects: two active ones led by Ada, a completed one without a leader.\<close>

definition roster_db :: db where
  "roster_db = faculty_db
     \<lparr>PROJECT :=
        [\<lparr>prj_PID = 1, prj_Title = ''Alpha'', prj_SDate = (2023, 1, 1), prj_EDate = None,
          prj_EDuration = 24, prj_Status = ''Active'', prj_LeaderMID = Some 1\<rparr>,
         \<lparr>prj_PID = 2, prj_Title = ''Beta'', prj_SDate = (2021, 6, 1),
          prj_EDate = Some (2022, 6, 1), prj_EDuration = 12, prj_Status = ''Completed'',
          prj_LeaderMID = None\<rparr>,
         \<lparr>prj_PID = 3, prj_Title = ''Gamma'', prj_SDate = (2024, 2, 1), prj_EDate = None,
          prj_EDuration = 6, prj_Status = ''Active'', prj_LeaderMID = Some 1\<rparr>],
      next_PID := 4\<rparr>"

text \<open>
  The words of the two rosters: the titles of the projects a grant funds, one for each
  funding link, and the names of the authors of a publication, one for each authorship
  link.
\<close>

definition funded_titles :: "db \<Rightarrow> int \<Rightarrow> string list" where
  "funded_titles d gid =
     concat (map (\<lambda>f. map prj_Title (filter (\<lambda>p. prj_PID p = fd_PID f) (PROJECT d)))
               (filter (\<lambda>f. fd_GID f = gid) (FUNDS d)))"

definition author_names :: "db \<Rightarrow> int \<Rightarrow> string list" where
  "author_names d pubid =
     concat (map (\<lambda>a. map lm_Name (filter (\<lambda>lm. lm_MID lm = ph_MID a) (LAB_MEMBER d)))
               (filter (\<lambda>a. ph_PubID a = pubid) (PUBLISHES d)))"

text \<open>A list as a roster column shows it: the given text when the list is empty.\<close>

definition shown_list :: "string \<Rightarrow> string list \<Rightarrow> string" where
  "shown_list none vs = (case vs of [] \<Rightarrow> none | w # ws \<Rightarrow> join_with '', '' (w # ws))"

text \<open>
  A grant that funds two projects of the same title and a grant that funds none; a
  publication by two members of the same name and a publication without authors.
\<close>

definition namesake_db :: db where
  "namesake_db = empty_db
     \<lparr>LAB_MEMBER :=
        [\<lparr>lm_MID = 1, lm_Name = ''Alex Kim'', lm_MType = Faculty, lm_JoinDate = (2020, 9, 1)\<rparr>,
         \<lparr>lm_MID = 2, lm_Name = ''Alex Kim'', lm_MType = Student, lm_JoinDate = (2022, 9, 1)\<rparr>],
      PROJECT :=
        [\<lparr>prj_PID = 1, prj_Title = ''Robotics'', prj_SDate = (2021, 1, 1),
          prj_EDate = Some (2022, 1, 1), prj_EDuration = 12, prj_Status = ''Completed'',
          prj_LeaderMID = Some 1\<rparr>,
         \<lparr>prj_PID = 2, prj_Title = ''Robotics'', prj_SDate = (2023, 1, 1), prj_EDate = None,
          prj_EDuration = 12, prj_Status = ''Active'', prj_LeaderMID = Some 1\<rparr>],
      GRANT_TABLE :=
        [\<lparr>gr_GID = 1, gr_Source = ''NSF'', gr_Budget = 50000, gr_StartDate = (2021, 1, 1),
          gr_Duration = 36\<rparr>,
         \<lparr>gr_GID = 2, gr_Source = ''DOE'', gr_Budget = 20000, gr_StartDate = (2024, 1, 1),
          gr_Duration = 12\<rparr>],
      FUNDS := [\<lparr>fd_GID = 1, fd_PID = 1\<rparr>, \<lparr>fd_GID = 1, fd_PID = 2\<rparr>],
      PUBLICATION :=
        [\<lparr>pub_PubID = 1, pub_Title = ''Survey'', pub_PubDate = (2023, 5, 1), pub_Venue = ''ICRA''\<rparr>,
         \<lparr>pub_PubID = 2, pub_Title = ''Draft'', pub_PubDate = (2024, 5, 1), pub_Venue = ''Notes''\<rparr>],
      PUBLISHES := [\<lparr>ph_MID = 1, ph_PubID = 1\<rparr>, \<lparr>ph_MID = 2, ph_PubID = 1\<rparr>],
      next_MID := 3, next_PID := 3\<rparr>"

text \<open>A project in date order whose leader key is that of the student Ben.\<close>

definition student_led_project :: add_project_in where
  "student_led_project = \<lparr>ap_title = ''Delta'', ap_start_date = Some (2024, 1, 1),
                           ap_end_date = Some (2024, 12, 31), ap_duration = Some 12,
                           ap_status = Some ''Active'', ap_leader = Some 2,
                           ap_assign_now = False, ap_team = []\<rparr>"

text \<open>
  What the average report owes a major: the number of its students, and the total of
  their publication counts. The total counts PUBLISHES rows, so a publication written by
  two students of the major counts twice.
\<close>

definition major_students :: "db \<Rightarrow> string \<Rightarrow> nat" where
  "major_students d m = length (students_in_major d m)"

definition major_total :: "db \<Rightarrow> string \<Rightarrow> nat" where
  "major_total d m =
     sum_list (map (\<lambda>s. publication_count d (stu_MID s)) (students_in_major d m))"

text \<open>
  Three chemistry students, two of whom wrote one publication together.
\<close>

definition chemistry_db :: db where
  "chemistry_db = empty_db
     \<lparr>LAB_MEMBER :=
        [\<lparr>lm_MID = 11, lm_Name = ''Gus'', lm_MType = Student, lm_JoinDate = (2022, 9, 1)\<rparr>,
         \<lparr>lm_MID = 12, lm_Name = ''Hal'', lm_MType = Student, lm_JoinDate = (2022, 9, 1)\<rparr>,
         \<lparr>lm_MID = 13, lm_Name = ''Ivy'', lm_MType = Student, lm_JoinDate = (2023, 9, 1)\<rparr>],
      STUDENT :=
        [\<lparr>stu_MID = 11, stu_SID = ''S-2001'', stu_Level = ''Senior'', stu_Major = ''Chemistry''\<rparr>,
         \<lparr>stu_MID = 12, stu_SID = ''S-2002'', stu_Level = ''Senior'', stu_Major = ''Chemistry''\<rparr>,
         \<lparr>stu_MID = 13, stu_SID = ''S-2003'', stu_Level = ''Junior'', stu_Major = ''Chemistry''\<rparr>],
      PUBLICATION :=
        [\<lparr>pub_PubID = 1, pub_Title = ''Salts'', pub_PubDate = (2024, 3, 1), pub_Venue = ''JACS''\<rparr>],
      PUBLISHES := [\<lparr>ph_MID = 11, ph_PubID = 1\<rparr>, \<lparr>ph_MID = 12, ph_PubID = 1\<rparr>],
      next_MID := 14\<rparr>"

section \<open>Properties\<close>

lemma set_inner_join:
  "set (inner_join xs ys on) = {(x, y). x \<in> set xs \<and> y \<in> set ys \<and> on x y}"
  by (auto simp: inner_join_def)

lemma non_null_Some: "non_null (\<lambda>r. Some (f r)) rs = map f rs"
  by (induction rs) (simp_all add: non_null_def)

text \<open>
  C5. The count of funded active projects is the number of distinct project keys that
  have a row in FUNDS and whose project starts no later than the end of the period and has
  no end date or an end date no earlier than the start of the period; a project with
  several grants counts once.
\<close>

theorem funded_active_count_correct:
  "funded_active_count d start end =
     card {pid. \<exists>p \<in> set (PROJECT d). prj_PID p = pid \<and> (\<exists>f \<in> set (FUNDS d). fd_PID f = pid) \<and>
                 prj_SDate p \<le> end \<and>
                 (prj_EDate p = None \<or> (\<exists>e. prj_EDate p = Some e \<and> start \<le> e))}"
proof -
  let ?rows = "filter (\<lambda>(p, f). active_in_period start end p)
          (inner_join (PROJECT d) (FUNDS d) (\<lambda>p f. prj_PID p = fd_PID f))"
  have "funded_active_count d start end = card (set (map (\<lambda>(p, f). prj_PID p) ?rows))"
    unfolding funded_active_count_def count_distinct_def
    by (simp add: non_null_Some length_remdups_card_conv case_prod_unfold)
  also have "set (map (\<lambda>(p, f). prj_PID p) ?rows) =
     {pid. \<exists>p \<in> set (PROJECT d). prj_PID p = pid \<and> (\<exists>f \<in> set (FUNDS d). fd_PID f = pid) \<and>
                 prj_SDate p \<le> end \<and>
                 (prj_EDate p = None \<or> (\<exists>e. prj_EDate p = Some e \<and> start \<le> e))}"
    by (auto simp: set_inner_join active_in_period_def split: option.splits) force+
  finally show ?thesis .
qed

theorem funded_active_count_correct_witness:
  "card {pid. \<exists>p \<in> set (PROJECT period_db). prj_PID p = pid \<and>
                (\<exists>f \<in> set (FUNDS period_db). fd_PID f = pid) \<and>
                prj_SDate p \<le> (2023, 12, 31) \<and>
                (prj_EDate p = None \<or> (\<exists>e. prj_EDate p = Some e \<and> (2023, 6, 1) \<le> e))} = 1
   \<and> card {pid. \<exists>p \<in> set (PROJECT period_db). prj_PID p = pid \<and>
                (\<exists>f \<in> set (FUNDS period_db). fd_PID f = pid) \<and>
                prj_SDate p \<le> (2023, 12, 31) \<and>
                (prj_EDate p = None \<or> (\<exists>e. prj_EDate p = Some e \<and> (2023, 7, 1) \<le> e))} = 0"
proof -
  have a: "funded_active_count period_db (2023, 6, 1) (2023, 12, 31) = 1"
    by (simp add: funded_active_count_def count_distinct_def inner_join_def non_null_def
        active_in_period_def period_db_def empty_db_def)
  have b: "funded_active_count period_db (2023, 7, 1) (2023, 12, 31) = 0"
    by (simp add: funded_active_count_def count_distinct_def inner_join_def non_null_def
        active_in_period_def period_db_def empty_db_def)
  from funded_active_count_correct [of period_db "(2023, 6, 1)" "(2023, 12, 31)", symmetric] a
  have c: "card {pid. \<exists>p \<in> set (PROJECT period_db). prj_PID p = pid \<and>
                (\<exists>f \<in> set (FUNDS period_db). fd_PID f = pid) \<and>
                prj_SDate p \<le> (2023, 12, 31) \<and>
                (prj_EDate p = None \<or> (\<exists>e. prj_EDate p = Some e \<and> (2023, 6, 1) \<le> e))} = 1"
    by (rule trans)
  from funded_active_count_correct [of period_db "(2023, 7, 1)" "(2023, 12, 31)", symmetric] b
  have e: "card {pid. \<exists>p \<in> set (PROJECT period_db). prj_PID p = pid \<and>
                (\<exists>f \<in> set (FUNDS period_db). fd_PID f = pid) \<and>
                prj_SDate p \<le> (2023, 12, 31) \<and>
                (prj_EDate p = None \<or> (\<exists>e. prj_EDate p = Some e \<and> (2023, 7, 1) \<le> e))} = 0"
    by (rule trans)
  from c e show ?thesis by (rule conjI)
qed

lemma add_usage_accepted:
  assumes "au_eid i = Some eid" and "au_mid i = Some mid" and "au_purpose i \<noteq> []" and conn2
    and "mid \<in> set (map lm_MID (LAB_MEMBER d))"
    and "eid \<in> set (map eq_EID (EQUIPMENT d))"
    and "(mid, eid, case au_sdate i of None \<Rightarrow> today | Some s \<Rightarrow> s)
           \<notin> set (map (\<lambda>u. (us_MID u, us_EID u, us_SDate u)) (USES d))"
  shows "snd (add_usage today conn1 conn2 i d) =
           d\<lparr>USES := USES d @ [\<lparr>us_MID = mid, us_EID = eid,
                  us_SDate = (case au_sdate i of None \<Rightarrow> today | Some s \<Rightarrow> s),
                  us_EDate = au_edate i, us_Purpose = au_purpose i\<rparr>]\<rparr>"
    and "last (fst (add_usage today conn1 conn2 i d)) = Usage_recorded"
  using assms
  by (simp_all add: add_usage_def execute_update_def insert_USES_def Let_def)

text \<open>
  C1 (as the code has it). \<open>add_usage\<close> counts nothing before its INSERT: whatever the
  number of current users of the equipment, three included, a call that creates a current
  record (no end date, or one not before today) prints the success message, appends the
  row and raises the number of current users by one, whenever the storage engine accepts
  the row (the member and the equipment exist, and the key (member, equipment, start
  date) is new). So a new current record is permitted in every state, also after one of
  three records was ended.
\<close>
theorem add_usage_no_capacity_check:
  assumes "au_eid i = Some eid" and "au_mid i = Some mid" and "au_purpose i \<noteq> []" and conn2
    and "mid \<in> set (map lm_MID (LAB_MEMBER d))"
    and "eid \<in> set (map eq_EID (EQUIPMENT d))"
    and "(mid, eid, case au_sdate i of None \<Rightarrow> today | Some s \<Rightarrow> s)
           \<notin> set (map (\<lambda>u. (us_MID u, us_EID u, us_SDate u)) (USES d))"
    and "au_edate i = None \<or> (\<exists>e. au_edate i = Some e \<and> today \<le> e)"
  shows "last (fst (add_usage today conn1 conn2 i d)) = Usage_recorded
       \<and> USES (snd (add_usage today conn1 conn2 i d)) =
           USES d @ [\<lparr>us_MID = mid, us_EID = eid,
                  us_SDate = (case au_sdate i of None \<Rightarrow> today | Some s \<Rightarrow> s),
                  us_EDate = au_edate i, us_Purpose = au_purpose i\<rparr>]
       \<and> current_users today (snd (add_usage today conn1 conn2 i d)) eid =
           current_users today d eid + 1"
proof -
  note r = add_usage_accepted [OF assms(1-7)]
  have "usage_active today \<lparr>us_MID = mid, us_EID = eid,
                  us_SDate = (case au_sdate i of None \<Rightarrow> today | Some s \<Rightarrow> s),
                  us_EDate = au_edate i, us_Purpose = au_purpose i\<rparr>"
    using assms(8) by (auto simp: usage_active_def)
  then show ?thesis
    by (simp add: r current_users_def)
qed

theorem add_usage_no_capacity_check_witness:
  "current_users (2024, 5, 1) busy_db 1 = 3
   \<and> last (fst (add_usage (2024, 5, 1) True True fourth_user busy_db)) = Usage_recorded
   \<and> current_users (2024, 5, 1) (snd (add_usage (2024, 5, 1) True True fourth_user busy_db)) 1 = 4"
proof -
  have c: "current_users (2024, 5, 1) busy_db 1 = 3"
    by (simp add: current_users_def busy_db_def empty_db_def usage_active_def)
  have "last (fst (add_usage (2024, 5, 1) True True fourth_user busy_db)) = Usage_recorded
       \<and> USES (snd (add_usage (2024, 5, 1) True True fourth_user busy_db)) =
           USES busy_db @ [\<lparr>us_MID = 4, us_EID = 1,
                  us_SDate = (case au_sdate fourth_user of None \<Rightarrow> (2024, 5, 1) | Some s \<Rightarrow> s),
                  us_EDate = au_edate fourth_user, us_Purpose = au_purpose fourth_user\<rparr>]
       \<and> current_users (2024, 5, 1) (snd (add_usage (2024, 5, 1) True True fourth_user busy_db)) 1 =
           current_users (2024, 5, 1) busy_db 1 + 1"
    by (rule add_usage_no_capacity_check)
      (simp_all add: fourth_user_def busy_db_def empty_db_def)
  with c show ?thesis by simp
qed

text \<open>
  C1 as stated fails: with three current users of the microscope, a fourth call without an
  end date is recorded.
\<close>
theorem add_usage_fourth_user_counterexample:
  "current_users (2024, 5, 1) busy_db 1 = 3
   \<and> fst (add_usage (2024, 5, 1) True True fourth_user busy_db) =
       [Equipment_table [(1, ''Microscope'', ''In Use'')], Usage_recorded]
   \<and> USES (snd (add_usage (2024, 5, 1) True True fourth_user busy_db)) =
       USES busy_db @ [\<lparr>us_MID = 4, us_EID = 1, us_SDate = (2024, 5, 1), us_EDate = None,
                         us_Purpose = ''calibration''\<rparr>]"
  by (simp add: current_users_def busy_db_def empty_db_def usage_active_def add_usage_def
      fourth_user_def execute_query_def execute_update_def equip_query_def order_by_def
      insert_USES_def)

text \<open>
  C10. \<open>add_usage\<close> never reads the status of the equipment outside the list it shows:
  for any equipment row, whatever its status, the INSERT succeeds when the storage engine
  accepts the row, and rewriting the statuses of the equipment table in any way
  changes neither the message nor the stored usage records.
\<close>
theorem add_usage_ignores_status:
  assumes "au_eid i = Some eid" and "au_mid i = Some mid" and "au_purpose i \<noteq> []" and conn2
    and "mid \<in> set (map lm_MID (LAB_MEMBER d))"
    and "eid \<in> set (map eq_EID (EQUIPMENT d))"
    and "(mid, eid, case au_sdate i of None \<Rightarrow> today | Some s \<Rightarrow> s)
           \<notin> set (map (\<lambda>u. (us_MID u, us_EID u, us_SDate u)) (USES d))"
  shows "last (fst (add_usage today conn1 conn2 i d)) = Usage_recorded
       \<and> USES (snd (add_usage today conn1 conn2 i d)) =
           USES d @ [\<lparr>us_MID = mid, us_EID = eid,
                  us_SDate = (case au_sdate i of None \<Rightarrow> today | Some s \<Rightarrow> s),
                  us_EDate = au_edate i, us_Purpose = au_purpose i\<rparr>]
       \<and> last (fst (add_usage today conn1 conn2 i
                  (d\<lparr>EQUIPMENT := map (\<lambda>x. x\<lparr>eq_Status := f x\<rparr>) (EQUIPMENT d)\<rparr>))) =
           Usage_recorded
       \<and> USES (snd (add_usage today conn1 conn2 i
                  (d\<lparr>EQUIPMENT := map (\<lambda>x. x\<lparr>eq_Status := f x\<rparr>) (EQUIPMENT d)\<rparr>))) =
           USES (snd (add_usage today conn1 conn2 i d))"
proof -
  let ?d = "d\<lparr>EQUIPMENT := map (\<lambda>x. x\<lparr>eq_Status := f x\<rparr>) (EQUIPMENT d)\<rparr>"
  note r = add_usage_accepted [OF assms(1-7)]
  have "eid \<in> set (map eq_EID (EQUIPMENT ?d))"
    using assms(6) by (simp add: comp_def)
  moreover have "mid \<in> set (map lm_MID (LAB_MEMBER ?d))" using assms(5) by simp
  moreover have "(mid, eid, case au_sdate i of None \<Rightarrow> today | Some s \<Rightarrow> s)
           \<notin> set (map (\<lambda>u. (us_MID u, us_EID u, us_SDate u)) (USES ?d))"
    using assms(7) by simp
  ultimately have r': "snd (add_usage today conn1 conn2 i ?d) =
           ?d\<lparr>USES := USES ?d @ [\<lparr>us_MID = mid, us_EID = eid,
                  us_SDate = (case au_sdate i of None \<Rightarrow> today | Some s \<Rightarrow> s),
                  us_EDate = au_edate i, us_Purpose = au_purpose i\<rparr>]\<rparr>"
    "last (fst (add_usage today conn1 conn2 i ?d)) = Usage_recorded"
    using add_usage_accepted [where d = ?d and today = today, OF assms(1-4)] by blast+
  show ?thesis by (simp add: r r')
qed

theorem add_usage_ignores_status_witness:
  "(2, ''Centrifuge'', ''Retired'') \<notin> set (equip_query busy_db)
   \<and> last (fst (add_usage (2024, 5, 1) True True retired_user busy_db)) = Usage_recorded
   \<and> USES (snd (add_usage (2024, 5, 1) True True retired_user busy_db)) =
       USES busy_db @ [\<lparr>us_MID = 4, us_EID = 2, us_SDate = (2024, 5, 2), us_EDate = None,
                         us_Purpose = ''spare parts''\<rparr>]"
proof -
  have a: "(2, ''Centrifuge'', ''Retired'') \<notin> set (equip_query busy_db)"
    by (simp add: equip_query_def busy_db_def empty_db_def order_by_def)
  have "last (fst (add_usage (2024, 5, 1) True True retired_user busy_db)) = Usage_recorded
       \<and> USES (snd (add_usage (2024, 5, 1) True True retired_user busy_db)) =
           USES busy_db @ [\<lparr>us_MID = 4, us_EID = 2,
                  us_SDate = (case au_sdate retired_user of None \<Rightarrow> (2024, 5, 1) | Some s \<Rightarrow> s),
                  us_EDate = au_edate retired_user, us_Purpose = au_purpose retired_user\<rparr>]
       \<and> last (fst (add_usage (2024, 5, 1) True True retired_user
                  (busy_db\<lparr>EQUIPMENT := map (\<lambda>x. x\<lparr>eq_Status := ''Available''\<rparr>) (EQUIPMENT busy_db)\<rparr>))) =
           Usage_recorded
       \<and> USES (snd (add_usage (2024, 5, 1) True True retired_user
                  (busy_db\<lparr>EQUIPMENT := map (\<lambda>x. x\<lparr>eq_Status := ''Available''\<rparr>) (EQUIPMENT busy_db)\<rparr>))) =
           USES (snd (add_usage (2024, 5, 1) True True retired_user busy_db))"
    by (rule add_usage_ignores_status)
      (simp_all add: retired_user_def busy_db_def empty_db_def)
  with a show ?thesis by (simp add: retired_user_def)
qed

lemma filter_key_absent: "k \<notin> set (map f rs) \<Longrightarrow> filter (\<lambda>r. f r = k) rs = []"
  by (induction rs) auto

lemma add_member_base:
  assumes conn1 and "next_MID d \<notin> set (map lm_MID (LAB_MEMBER d))"
  shows "execute_insert conn1 (insert_LAB_MEMBER (am_name i) mt jd) d =
           (Inr (next_MID d),
            d\<lparr>LAB_MEMBER := LAB_MEMBER d @
                 [\<lparr>lm_MID = next_MID d, lm_Name = am_name i, lm_MType = mt, lm_JoinDate = jd\<rparr>],
              next_MID := next_MID d + 1\<rparr>)"
  using assms by (simp add: execute_insert_def insert_LAB_MEMBER_def Let_def)

text \<open>
  C2 (as the code has it). \<open>add_member\<close> runs two transactions. For every valid
  (type, detail) pair, once the base INSERT is committed there is exactly one LAB_MEMBER
  row with the new key; when the detail INSERT succeeds the member has exactly one detail
  row, in the table of its type, and the success message is printed; when the detail
  INSERT fails the base row stays, the member has no detail row, the detail tables are
  unchanged, and the warning that the details may be incomplete is printed.
\<close>

theorem add_member_two_transactions:
  assumes "am_name i \<noteq> []" and "am_mtype i = Some mt" and "valid_detail mt i" and conn1
    and "next_MID d \<notin> set (map lm_MID (LAB_MEMBER d))"
    and "next_MID d \<notin> set (map fac_MID (FACULTY d))"
    and "next_MID d \<notin> set (map stu_MID (STUDENT d))"
    and "next_MID d \<notin> set (map col_MID (COLLABORATOR d))"
  shows "LAB_MEMBER (snd (add_member today conn1 conn2 i d)) =
           LAB_MEMBER d @ [\<lparr>lm_MID = next_MID d, lm_Name = am_name i, lm_MType = mt,
                             lm_JoinDate = (case am_join_date i of None \<Rightarrow> today | Some j \<Rightarrow> j)\<rparr>]
       \<and> length (filter (\<lambda>m. lm_MID m = next_MID d)
                   (LAB_MEMBER (snd (add_member today conn1 conn2 i d)))) = 1
       \<and> (if conn2
          then fst (add_member today conn1 conn2 i d) = [Member_added (am_name i) (next_MID d)]
             \<and> (\<forall>t. detail_count (snd (add_member today conn1 conn2 i d)) (next_MID d) t =
                      (if t = mt then 1 else 0))
          else fst (add_member today conn1 conn2 i d) = [Details_may_be_incomplete]
             \<and> (\<forall>t. detail_count (snd (add_member today conn1 conn2 i d)) (next_MID d) t = 0)
             \<and> FACULTY (snd (add_member today conn1 conn2 i d)) = FACULTY d
             \<and> STUDENT (snd (add_member today conn1 conn2 i d)) = STUDENT d
             \<and> COLLABORATOR (snd (add_member today conn1 conn2 i d)) = COLLABORATOR d)"
proof -
  note base = add_member_base [OF assms(4,5)]
  note absent = filter_key_absent [OF assms(5)] filter_key_absent [OF assms(6)]
    filter_key_absent [OF assms(7)] filter_key_absent [OF assms(8)]
  show ?thesis
  proof (cases mt)
    case Faculty
    with assms(3) have "am_dept i \<noteq> []" by (simp add: valid_detail_def)
    with Faculty assms(1,2,6) show ?thesis
      by (simp add: add_member_def Let_def base absent execute_update_def insert_FACULTY_def
          detail_count_def split: mtype.splits)
  next
    case Student
    with assms(3) obtain l where "am_level i = Some l" "l \<noteq> []" "am_sid i \<noteq> []" "am_major i \<noteq> []"
      by (auto simp: valid_detail_def split: option.splits)
    with Student assms(1,2,7) show ?thesis
      by (simp add: add_member_def Let_def base absent execute_update_def insert_STUDENT_def
          detail_count_def split: mtype.splits)
  next
    case Collaborator
    with assms(3) have "am_affil i \<noteq> []" by (simp add: valid_detail_def)
    with Collaborator assms(1,2,8) show ?thesis
      by (simp add: add_member_def Let_def base absent execute_update_def insert_COLLABORATOR_def
          detail_count_def split: mtype.splits)
  qed
qed

text \<open>
  C2 as stated fails: a valid faculty member whose detail INSERT finds no connection is
  left in LAB_MEMBER without any detail row.
\<close>

theorem add_member_detail_failure_counterexample:
  "valid_detail Faculty new_faculty
   \<and> fst (add_member (2024, 5, 1) True False new_faculty empty_db) = [Details_may_be_incomplete]
   \<and> LAB_MEMBER (snd (add_member (2024, 5, 1) True False new_faculty empty_db)) =
       [\<lparr>lm_MID = 1, lm_Name = ''Eve'', lm_MType = Faculty, lm_JoinDate = (2024, 5, 1)\<rparr>]
   \<and> FACULTY (snd (add_member (2024, 5, 1) True False new_faculty empty_db)) = []
   \<and> STUDENT (snd (add_member (2024, 5, 1) True False new_faculty empty_db)) = []
   \<and> COLLABORATOR (snd (add_member (2024, 5, 1) True False new_faculty empty_db)) = []"
  by (simp add: valid_detail_def new_faculty_def empty_db_def add_member_def execute_insert_def
      insert_LAB_MEMBER_def execute_update_def)

theorem add_member_two_transactions_witness:
  "fst (add_member (2024, 5, 1) True True new_student busy_db) = [Member_added ''Finn'' 5]
   \<and> STUDENT (snd (add_member (2024, 5, 1) True True new_student busy_db)) =
        [\<lparr>stu_MID = 5, stu_SID = ''S-1007'', stu_Level = ''Graduate'', stu_Major = ''Physics''\<rparr>]
   \<and> detail_count (snd (add_member (2024, 5, 1) True True new_student busy_db)) 5 Student = 1
   \<and> detail_count (snd (add_member (2024, 5, 1) True False new_student busy_db)) 5 Student = 0
   \<and> length (filter (\<lambda>m. lm_MID m = 5)
        (LAB_MEMBER (snd (add_member (2024, 5, 1) True False new_student busy_db)))) = 1"
proof -
  have n: "next_MID busy_db = 5" and nm: "am_name new_student = ''Finn''"
    by (simp_all add: busy_db_def empty_db_def new_student_def)
  have h: "am_name new_student \<noteq> []" "am_mtype new_student = Some Student"
    "valid_detail Student new_student"
    "next_MID busy_db \<notin> set (map lm_MID (LAB_MEMBER busy_db))"
    "next_MID busy_db \<notin> set (map fac_MID (FACULTY busy_db))"
    "next_MID busy_db \<notin> set (map stu_MID (STUDENT busy_db))"
    "next_MID busy_db \<notin> set (map col_MID (COLLABORATOR busy_db))"
    by (simp_all add: new_student_def valid_detail_def busy_db_def empty_db_def)
  have t: "True" by simp
  from add_member_two_transactions [OF h(1-3) t h(4-7), of "(2024, 5, 1)" True]
  have a: "fst (add_member (2024, 5, 1) True True new_student busy_db) = [Member_added ''Finn'' 5]"
    and b: "detail_count (snd (add_member (2024, 5, 1) True True new_student busy_db)) 5 Student = 1"
    by (simp_all add: n nm)
  from add_member_two_transactions [OF h(1-3) t h(4-7), of "(2024, 5, 1)" False]
  have c: "detail_count (snd (add_member (2024, 5, 1) True False new_student busy_db)) 5 Student = 0"
    and e: "length (filter (\<lambda>m. lm_MID m = 5)
        (LAB_MEMBER (snd (add_member (2024, 5, 1) True False new_student busy_db)))) = 1"
    by (simp_all add: n nm busy_db_def empty_db_def)
  have s: "STUDENT (snd (add_member (2024, 5, 1) True True new_student busy_db)) =
        [\<lparr>stu_MID = 5, stu_SID = ''S-1007'', stu_Level = ''Graduate'', stu_Major = ''Physics''\<rparr>]"
    by (simp add: new_student_def busy_db_def empty_db_def add_member_def execute_insert_def
      insert_LAB_MEMBER_def execute_update_def insert_STUDENT_def Let_def)
  from a s b c e show ?thesis by simp
qed

lemma mset_insert_by: "mset (insert_by le x xs) = add_mset x (mset xs)"
  by (induction xs) simp_all

lemma mset_order_by: "mset (order_by le xs) = mset xs"
  by (induction xs) (simp_all add: order_by_def mset_insert_by)

lemma set_order_by: "set (order_by le xs) = set xs"
  using mset_order_by [of le xs] by (metis set_mset_mset)

lemma length_order_by: "length (order_by le xs) = length xs"
  using mset_order_by [of le xs] by (metis size_mset)

lemma order_by_Nil_iff: "order_by le xs = [] \<longleftrightarrow> xs = []"
  using length_order_by [of le xs] by (metis length_0_conv)

lemma sorted_wrt_insert_by:
  assumes total: "\<And>a b. le a b \<or> le b a" and trans: "\<And>a b c. le a b \<Longrightarrow> le b c \<Longrightarrow> le a c"
  shows "sorted_wrt le xs \<Longrightarrow> sorted_wrt le (insert_by le x xs)"
proof (induction xs)
  case Nil
  then show ?case by simp
next
  case (Cons y ys)
  show ?case
  proof (cases "le x y")
    case True
    with Cons.prems show ?thesis by (auto intro: trans)
  next
    case False
    then have yx: "le y x" using total by blast
    have "set (insert_by le x ys) = insert x (set ys)"
      using mset_insert_by [of le x ys] by (metis set_mset_add_mset_insert set_mset_mset)
    with False yx Cons show ?thesis by auto
  qed
qed

lemma sorted_wrt_order_by:
  assumes "\<And>a b. le a b \<or> le b a" and "\<And>a b c. le a b \<Longrightarrow> le b c \<Longrightarrow> le a c"
  shows "sorted_wrt le (order_by le xs)"
proof (induction xs)
  case Nil
  then show ?case by (simp add: order_by_def)
next
  case (Cons x xs)
  have "order_by le (x # xs) = insert_by le x (order_by le xs)" by (simp add: order_by_def)
  with Cons sorted_wrt_insert_by [of le, OF assms] show ?case by simp
qed

lemma assign_team_only_WORKS:
  "snd (assign_team pid team d) = d\<lparr>WORKS := WORKS (snd (assign_team pid team d))\<rparr>"
proof (induction team arbitrary: d)
  case Nil
  then show ?case by simp
next
  case (Cons a rest)
  have u: "\<And>r. snd (execute_update (as_conn a) (upsert_WORKS r) d) =
             d\<lparr>WORKS := WORKS (snd (execute_update (as_conn a) (upsert_WORKS r) d))\<rparr>"
    by (simp add: execute_update_def upsert_WORKS_def)
  show ?case
  proof (cases "as_mid a")
    case None
    then show ?thesis by simp
  next
    case (Some mid)
    show ?thesis
    proof (cases "mid = 0 \<or> as_role a = [] \<or> as_hours a = None")
      case True
      with Some Cons.IH [of d] show ?thesis by (auto split: option.splits)
    next
      case False
      then obtain h where h: "as_hours a = Some h" by auto
      let ?r = "\<lparr>wk_MID = mid, wk_PID = pid, wk_Role = as_role a, wk_Hours = h\<rparr>"
      let ?d1 = "snd (execute_update (as_conn a) (upsert_WORKS ?r) d)"
      have s: "snd (assign_team pid (a # rest) d) = snd (assign_team pid rest ?d1)"
        using Some False h by (simp split: prod.splits)
      have "snd (assign_team pid rest ?d1) = ?d1\<lparr>WORKS := WORKS (snd (assign_team pid rest ?d1))\<rparr>"
        by (rule Cons.IH)
      also have "\<dots> = d\<lparr>WORKS := WORKS (snd (assign_team pid rest ?d1))\<rparr>"
        by (subst u) simp
      finally show ?thesis by (simp only: s)
    qed
  qed
qed

lemma PROJECT_assign_team: "PROJECT (snd (assign_team pid team d)) = PROJECT d"
  by (subst assign_team_only_WORKS) simp

lemma faculty_query_Nil_iff:
  "faculty_query d = [] \<longleftrightarrow>
     (\<forall>lm \<in> set (LAB_MEMBER d). \<forall>f \<in> set (FACULTY d). lm_MID lm \<noteq> fac_MID f)"
proof -
  have "faculty_query d = [] \<longleftrightarrow>
          set (inner_join (LAB_MEMBER d) (FACULTY d) (\<lambda>lm f. lm_MID lm = fac_MID f)) = {}"
    by (simp add: faculty_query_def order_by_Nil_iff)
  then show ?thesis by (auto simp: set_inner_join)
qed

text \<open>
  C3 (as the code has it). \<open>add_project\<close> compares the leader key with the faculty it
  lists nowhere, and the two dates nowhere. For every complete answer to its prompts:
  when no lab member has a FACULTY row it prints that no faculty was found and creates
  no project; when some lab member has one, a leader key of any lab member, a student or
  a collaborator included, gives a stored project with that leader and with the dates as
  given, whatever their order, and the creation message; and a leader key of no lab
  member is refused by the storage engine, so that the failure message is printed and
  nothing is stored.
\<close>

theorem add_project_checks:
  assumes "ap_title i \<noteq> []" and "ap_start_date i = Some start_date"
    and "ap_duration i = Some duration" and "ap_status i = Some status" and "status \<noteq> []"
  shows "((\<forall>lm \<in> set (LAB_MEMBER d). \<forall>f \<in> set (FACULTY d). lm_MID lm \<noteq> fac_MID f) \<longrightarrow>
            add_project conn1 conn2 i d = ([No_faculty_found], d))
       \<and> (conn1 \<and> conn2 \<and> ap_leader i = Some leader
            \<and> (\<exists>lm \<in> set (LAB_MEMBER d). \<exists>f \<in> set (FACULTY d). lm_MID lm = fac_MID f)
            \<and> leader \<in> set (map lm_MID (LAB_MEMBER d))
            \<and> next_PID d \<notin> set (map prj_PID (PROJECT d)) \<longrightarrow>
            PROJECT (snd (add_project conn1 conn2 i d)) =
              PROJECT d @ [\<lparr>prj_PID = next_PID d, prj_Title = ap_title i, prj_SDate = start_date,
                             prj_EDate = ap_end_date i, prj_EDuration = duration,
                             prj_Status = status, prj_LeaderMID = Some leader\<rparr>]
            \<and> Project_created (ap_title i) (next_PID d) \<in> set (fst (add_project conn1 conn2 i d)))
       \<and> (conn1 \<and> conn2 \<and> ap_leader i = Some leader
            \<and> (\<exists>lm \<in> set (LAB_MEMBER d). \<exists>f \<in> set (FACULTY d). lm_MID lm = fac_MID f)
            \<and> leader \<notin> set (map lm_MID (LAB_MEMBER d))
            \<and> next_PID d \<notin> set (map prj_PID (PROJECT d)) \<longrightarrow>
            add_project conn1 conn2 i d =
              ([Faculty_table (faculty_query d), Failed_to_create_project Foreign_key_violation], d))"
proof -
  have a: "add_project conn1 conn2 i d = ([No_faculty_found], d)"
    if "\<forall>lm \<in> set (LAB_MEMBER d). \<forall>f \<in> set (FACULTY d). lm_MID lm \<noteq> fac_MID f"
  proof -
    from that have "faculty_query d = []" by (simp add: faculty_query_Nil_iff)
    with assms show ?thesis by (simp add: add_project_def execute_query_def)
  qed
  have b: "PROJECT (snd (add_project conn1 conn2 i d)) =
              PROJECT d @ [\<lparr>prj_PID = next_PID d, prj_Title = ap_title i, prj_SDate = start_date,
                             prj_EDate = ap_end_date i, prj_EDuration = duration,
                             prj_Status = status, prj_LeaderMID = Some leader\<rparr>]
            \<and> Project_created (ap_title i) (next_PID d) \<in> set (fst (add_project conn1 conn2 i d))"
    if h: "conn1 \<and> conn2 \<and> ap_leader i = Some leader
            \<and> (\<exists>lm \<in> set (LAB_MEMBER d). \<exists>f \<in> set (FACULTY d). lm_MID lm = fac_MID f)
            \<and> leader \<in> set (map lm_MID (LAB_MEMBER d))
            \<and> next_PID d \<notin> set (map prj_PID (PROJECT d))"
  proof -
    from h have "faculty_query d \<noteq> []" by (simp add: faculty_query_Nil_iff)
    with assms h show ?thesis
      by (simp add: add_project_def execute_query_def execute_insert_def insert_PROJECT_def
          Let_def PROJECT_assign_team case_prod_unfold)
  qed
  have c: "add_project conn1 conn2 i d =
              ([Faculty_table (faculty_query d), Failed_to_create_project Foreign_key_violation], d)"
    if h: "conn1 \<and> conn2 \<and> ap_leader i = Some leader
            \<and> (\<exists>lm \<in> set (LAB_MEMBER d). \<exists>f \<in> set (FACULTY d). lm_MID lm = fac_MID f)
            \<and> leader \<notin> set (map lm_MID (LAB_MEMBER d))
            \<and> next_PID d \<notin> set (map prj_PID (PROJECT d))"
  proof -
    from h have "faculty_query d \<noteq> []" by (simp add: faculty_query_Nil_iff)
    with assms h show ?thesis
      by (simp add: add_project_def execute_query_def execute_insert_def insert_PROJECT_def
          Let_def)
  qed
  from a b c show ?thesis by blast
qed

text \<open>
  C3 as stated fails in both halves: a project that ends a year before it starts, led by
  the faculty member Ada, is created; and a project led by Ben, a student without a
  FACULTY row, is created.
\<close>

theorem add_project_unchecked_counterexample:
  "fst (add_project True True backwards_project faculty_db) =
     [Faculty_table [(1, ''Ada'', ''Physics'')], Project_created ''Beta'' 1]
   \<and> PROJECT (snd (add_project True True backwards_project faculty_db)) =
       [\<lparr>prj_PID = 1, prj_Title = ''Beta'', prj_SDate = (2024, 1, 1),
         prj_EDate = Some (2023, 1, 1), prj_EDuration = 12, prj_Status = ''Active'',
         prj_LeaderMID = Some 1\<rparr>]
   \<and> map lm_MType (filter (\<lambda>lm. lm_MID lm = 2) (LAB_MEMBER faculty_db)) = [Student]
   \<and> map fac_MID (FACULTY faculty_db) = [1]
   \<and> fst (add_project True True student_led_project faculty_db) =
     [Faculty_table [(1, ''Ada'', ''Physics'')], Project_created ''Delta'' 1]
   \<and> PROJECT (snd (add_project True True student_led_project faculty_db)) =
       [\<lparr>prj_PID = 1, prj_Title = ''Delta'', prj_SDate = (2024, 1, 1),
         prj_EDate = Some (2024, 12, 31), prj_EDuration = 12, prj_Status = ''Active'',
         prj_LeaderMID = Some 2\<rparr>]"
  by (simp add: add_project_def backwards_project_def student_led_project_def faculty_db_def
      busy_db_def empty_db_def execute_query_def faculty_query_def inner_join_def order_by_def
      execute_insert_def insert_PROJECT_def Let_def)

theorem add_project_checks_witness:
  "add_project True True backwards_project busy_db = ([No_faculty_found], busy_db)
   \<and> PROJECT (snd (add_project True True backwards_project faculty_db)) =
       PROJECT faculty_db @
         [\<lparr>prj_PID = next_PID faculty_db, prj_Title = ap_title backwards_project,
           prj_SDate = (2024, 1, 1), prj_EDate = ap_end_date backwards_project,
           prj_EDuration = 12, prj_Status = ''Active'', prj_LeaderMID = Some 1\<rparr>]
   \<and> PROJECT (snd (add_project True True student_led_project faculty_db)) =
       PROJECT faculty_db @
         [\<lparr>prj_PID = next_PID faculty_db, prj_Title = ap_title student_led_project,
           prj_SDate = (2024, 1, 1), prj_EDate = ap_end_date student_led_project,
           prj_EDuration = 12, prj_Status = ''Active'', prj_LeaderMID = Some 2\<rparr>]
   \<and> add_project True True (student_led_project\<lparr>ap_leader := Some 9\<rparr>) faculty_db =
       ([Faculty_table (faculty_query faculty_db),
         Failed_to_create_project Foreign_key_violation], faculty_db)"
proof -
  have h: "ap_title backwards_project \<noteq> []" "ap_start_date backwards_project = Some (2024, 1, 1)"
    "ap_duration backwards_project = Some 12" "ap_status backwards_project = Some ''Active''"
    "''Active'' \<noteq> []"
    by (simp_all add: backwards_project_def)
  have k: "ap_title student_led_project \<noteq> []"
    "ap_start_date student_led_project = Some (2024, 1, 1)"
    "ap_duration student_led_project = Some 12" "ap_status student_led_project = Some ''Active''"
    "''Active'' \<noteq> []"
    by (simp_all add: student_led_project_def)
  have l: "ap_title (student_led_project\<lparr>ap_leader := Some 9\<rparr>) \<noteq> []"
    "ap_start_date (student_led_project\<lparr>ap_leader := Some 9\<rparr>) = Some (2024, 1, 1)"
    "ap_duration (student_led_project\<lparr>ap_leader := Some 9\<rparr>) = Some 12"
    "ap_status (student_led_project\<lparr>ap_leader := Some 9\<rparr>) = Some ''Active''"
    "''Active'' \<noteq> []"
    by (simp_all add: student_led_project_def)
  have a: "\<forall>lm \<in> set (LAB_MEMBER busy_db). \<forall>f \<in> set (FACULTY busy_db). lm_MID lm \<noteq> fac_MID f"
    by (simp add: busy_db_def empty_db_def)
  have b: "True \<and> True \<and> ap_leader backwards_project = Some 1
            \<and> (\<exists>lm \<in> set (LAB_MEMBER faculty_db). \<exists>f \<in> set (FACULTY faculty_db).
                  lm_MID lm = fac_MID f)
            \<and> 1 \<in> set (map lm_MID (LAB_MEMBER faculty_db))
            \<and> next_PID faculty_db \<notin> set (map prj_PID (PROJECT faculty_db))"
    by (simp add: backwards_project_def faculty_db_def busy_db_def empty_db_def)
  have c: "True \<and> True \<and> ap_leader student_led_project = Some 2
            \<and> (\<exists>lm \<in> set (LAB_MEMBER faculty_db). \<exists>f \<in> set (FACULTY faculty_db).
                  lm_MID lm = fac_MID f)
            \<and> 2 \<in> set (map lm_MID (LAB_MEMBER faculty_db))
            \<and> next_PID faculty_db \<notin> set (map prj_PID (PROJECT faculty_db))"
    by (simp add: student_led_project_def faculty_db_def busy_db_def empty_db_def)
  have e: "True \<and> True \<and> ap_leader (student_led_project\<lparr>ap_leader := Some 9\<rparr>) = Some 9
            \<and> (\<exists>lm \<in> set (LAB_MEMBER faculty_db). \<exists>f \<in> set (FACULTY faculty_db).
                  lm_MID lm = fac_MID f)
            \<and> 9 \<notin> set (map lm_MID (LAB_MEMBER faculty_db))
            \<and> next_PID faculty_db \<notin> set (map prj_PID (PROJECT faculty_db))"
    by (simp add: student_led_project_def faculty_db_def busy_db_def empty_db_def)
  from add_project_checks [OF h, of busy_db True True] a
  have 1: "add_project True True backwards_project busy_db = ([No_faculty_found], busy_db)"
    by blast
  from add_project_checks [OF h, of faculty_db True True 1] b
  have 2: "PROJECT (snd (add_project True True backwards_project faculty_db)) =
       PROJECT faculty_db @
         [\<lparr>prj_PID = next_PID faculty_db, prj_Title = ap_title backwards_project,
           prj_SDate = (2024, 1, 1), prj_EDate = ap_end_date backwards_project,
           prj_EDuration = 12, prj_Status = ''Active'', prj_LeaderMID = Some 1\<rparr>]"
    by blast
  from add_project_checks [OF k, of faculty_db True True 2] c
  have 3: "PROJECT (snd (add_project True True student_led_project faculty_db)) =
       PROJECT faculty_db @
         [\<lparr>prj_PID = next_PID faculty_db, prj_Title = ap_title student_led_project,
           prj_SDate = (2024, 1, 1), prj_EDate = ap_end_date student_led_project,
           prj_EDuration = 12, prj_Status = ''Active'', prj_LeaderMID = Some 2\<rparr>]"
    by blast
  from add_project_checks [OF l, of faculty_db True True 9] e
  have 4: "add_project True True (student_led_project\<lparr>ap_leader := Some 9\<rparr>) faculty_db =
       ([Faculty_table (faculty_query faculty_db),
         Failed_to_create_project Foreign_key_violation], faculty_db)"
    by blast
  from 1 2 3 4 show ?thesis by (intro conjI)
qed

lemma filter_distinct_key:
  "distinct (map f xs) \<Longrightarrow> x \<in> set xs \<Longrightarrow> filter (\<lambda>y. f y = f x) xs = [x]"
proof (induction xs)
  case Nil
  then show ?case by simp
next
  case (Cons a xs)
  show ?case
  proof (cases "a = x")
    case True
    with Cons.prems have "f x \<notin> set (map f xs)" by simp
    then have "filter (\<lambda>y. f y = f x) xs = []" by (rule filter_key_absent)
    with True show ?thesis by simp
  next
    case False
    with Cons.prems have "x \<in> set xs" "f a \<noteq> f x" by force+
    with Cons show ?thesis by simp
  qed
qed

lemma keys_after_update:
  "map (\<lambda>w. (wk_MID w, wk_PID w))
     (map (\<lambda>w. if wk_MID w = m \<and> wk_PID w = p then w\<lparr>wk_Role := ro, wk_Hours := h\<rparr> else w) ws) =
   map (\<lambda>w. (wk_MID w, wk_PID w)) ws"
  by (induction ws) simp_all

lemma filter_after_update:
  "filter (\<lambda>w. (wk_MID w, wk_PID w) = k)
     (map (\<lambda>w. if wk_MID w = m \<and> wk_PID w = p then w\<lparr>wk_Role := ro, wk_Hours := h\<rparr> else w) ws) =
   map (\<lambda>w. if wk_MID w = m \<and> wk_PID w = p then w\<lparr>wk_Role := ro, wk_Hours := h\<rparr> else w)
     (filter (\<lambda>w. (wk_MID w, wk_PID w) = k) ws)"
  by (induction ws) simp_all

lemma upsert_WORKS_distinct:
  assumes "distinct (map (\<lambda>w. (wk_MID w, wk_PID w)) (WORKS d))" and "upsert_WORKS r d = Inr d'"
  shows "distinct (map (\<lambda>w. (wk_MID w, wk_PID w)) (WORKS d'))"
proof (cases "(wk_MID r, wk_PID r) \<in> set (map (\<lambda>w. (wk_MID w, wk_PID w)) (WORKS d))")
  case True
  with assms(2) have "WORKS d' = map (\<lambda>w. if wk_MID w = wk_MID r \<and> wk_PID w = wk_PID r
                                     then w\<lparr>wk_Role := wk_Role r, wk_Hours := wk_Hours r\<rparr>
                                     else w) (WORKS d)"
    by (auto simp: upsert_WORKS_def)
  moreover have "map (\<lambda>w. (wk_MID w, wk_PID w)) (map (\<lambda>w. if wk_MID w = wk_MID r \<and> wk_PID w = wk_PID r
                                     then w\<lparr>wk_Role := wk_Role r, wk_Hours := wk_Hours r\<rparr>
                                     else w) (WORKS d)) = map (\<lambda>w. (wk_MID w, wk_PID w)) (WORKS d)"
    by (rule keys_after_update)
  ultimately show ?thesis using assms(1) by (simp only:)
next
  case False
  with assms(2) have "WORKS d' = WORKS d @ [r]"
    by (auto simp: upsert_WORKS_def split: if_splits)
  with False assms(1) show ?thesis by simp
qed

lemma upsert_WORKS_stored:
  assumes "distinct (map (\<lambda>w. (wk_MID w, wk_PID w)) (WORKS d))"
    and "wk_MID r \<in> set (map lm_MID (LAB_MEMBER d))" and "wk_PID r \<in> set (map prj_PID (PROJECT d))"
  shows "\<exists>d'. upsert_WORKS r d = Inr d' \<and> LAB_MEMBER d' = LAB_MEMBER d \<and> PROJECT d' = PROJECT d
           \<and> filter (\<lambda>w. (wk_MID w, wk_PID w) = (wk_MID r, wk_PID r)) (WORKS d') = [r]"
proof (cases "(wk_MID r, wk_PID r) \<in> set (map (\<lambda>w. (wk_MID w, wk_PID w)) (WORKS d))")
  case True
  then obtain w where w: "w \<in> set (WORKS d)" "(wk_MID w, wk_PID w) = (wk_MID r, wk_PID r)"
    by auto
  let ?upd = "\<lambda>w. if wk_MID w = wk_MID r \<and> wk_PID w = wk_PID r
                   then w\<lparr>wk_Role := wk_Role r, wk_Hours := wk_Hours r\<rparr> else w"
  have "filter (\<lambda>w. (wk_MID w, wk_PID w) = (wk_MID r, wk_PID r)) (map ?upd (WORKS d))
          = map ?upd (filter (\<lambda>w. (wk_MID w, wk_PID w) = (wk_MID r, wk_PID r)) (WORKS d))"
    by (rule filter_after_update)
  also have "filter (\<lambda>w. (wk_MID w, wk_PID w) = (wk_MID r, wk_PID r)) (WORKS d) = [w]"
    using filter_distinct_key [OF assms(1) w(1)] w(2) by simp
  also have "map ?upd [w] = [r]" using w(2) by simp
  finally show ?thesis using True by (simp add: upsert_WORKS_def)
next
  case False
  then have "filter (\<lambda>w. (wk_MID w, wk_PID w) = (wk_MID r, wk_PID r)) (WORKS d) = []"
    by (rule filter_key_absent)
  with False assms(2,3) show ?thesis by (simp add: upsert_WORKS_def)
qed

lemma assign_team_distinct:
  "distinct (map (\<lambda>w. (wk_MID w, wk_PID w)) (WORKS d)) \<Longrightarrow>
   distinct (map (\<lambda>w. (wk_MID w, wk_PID w)) (WORKS (snd (assign_team pid team d))))"
proof (induction team arbitrary: d)
  case Nil
  then show ?case by simp
next
  case (Cons a rest)
  have u: "distinct (map (\<lambda>w. (wk_MID w, wk_PID w))
             (WORKS (snd (execute_update (as_conn a) (upsert_WORKS r) d))))" for r
    using Cons.prems upsert_WORKS_distinct [of d r]
    by (auto simp: execute_update_def split: sum.splits)
  show ?case
    using Cons.prems Cons.IH [OF Cons.prems] Cons.IH [OF u]
    by (simp add: case_prod_unfold split: option.splits)
qed

text \<open>
  C7. Two rounds of \<open>_assign_team\<close> for the same member and project, with different
  roles and hours, both print the assignment message and leave exactly one WORKS row for
  the pair, holding the role and hours of the second round; and whatever is typed in the
  loop, the pairs (MID, PID) of the stored rows stay distinct.
\<close>

theorem assign_team_upsert:
  assumes "distinct (map (\<lambda>w. (wk_MID w, wk_PID w)) (WORKS d))"
    and "mid \<noteq> 0" and "role1 \<noteq> []" and "role2 \<noteq> []"
    and "mid \<in> set (map lm_MID (LAB_MEMBER d))" and "pid \<in> set (map prj_PID (PROJECT d))"
  shows "fst (assign_team pid (assign_twice mid role1 hours1 role2 hours2) d) =
           [Member_assigned mid, Member_assigned mid]
       \<and> filter (\<lambda>w. wk_MID w = mid \<and> wk_PID w = pid)
           (WORKS (snd (assign_team pid (assign_twice mid role1 hours1 role2 hours2) d))) =
           [\<lparr>wk_MID = mid, wk_PID = pid, wk_Role = role2, wk_Hours = hours2\<rparr>]
       \<and> distinct (map (\<lambda>w. (wk_MID w, wk_PID w)) (WORKS (snd (assign_team pid team d))))"
proof -
  let ?r1 = "\<lparr>wk_MID = mid, wk_PID = pid, wk_Role = role1, wk_Hours = hours1\<rparr>"
  let ?r2 = "\<lparr>wk_MID = mid, wk_PID = pid, wk_Role = role2, wk_Hours = hours2\<rparr>"
  from upsert_WORKS_stored [of d ?r1] assms
  obtain d1 where d1: "upsert_WORKS ?r1 d = Inr d1" "LAB_MEMBER d1 = LAB_MEMBER d"
    "PROJECT d1 = PROJECT d" by auto
  from upsert_WORKS_distinct [OF assms(1) d1(1)]
  have dist1: "distinct (map (\<lambda>w. (wk_MID w, wk_PID w)) (WORKS d1))" .
  from upsert_WORKS_stored [of d1 ?r2] dist1 d1 assms
  obtain d2 where d2: "upsert_WORKS ?r2 d1 = Inr d2"
    "filter (\<lambda>w. (wk_MID w, wk_PID w) = (mid, pid)) (WORKS d2) = [?r2]" by auto
  have "assign_team pid (assign_twice mid role1 hours1 role2 hours2) d =
          ([Member_assigned mid, Member_assigned mid], d2)"
    using assms(2-4) d1(1) d2(1) by (simp add: assign_twice_def execute_update_def)
  with d2(2) assign_team_distinct [OF assms(1)] show ?thesis by simp
qed

theorem assign_team_upsert_witness:
  "filter (\<lambda>w. wk_MID w = 2 \<and> wk_PID w = 1)
     (WORKS (snd (assign_team 1 (assign_twice 2 ''Developer'' 12 ''Lead'' 20) project_db))) =
     [\<lparr>wk_MID = 2, wk_PID = 1, wk_Role = ''Lead'', wk_Hours = 20\<rparr>]
   \<and> filter (\<lambda>w. wk_MID w = 3 \<and> wk_PID w = 1)
     (WORKS (snd (assign_team 1 (assign_twice 3 ''Developer'' 12 ''Lead'' 20) project_db))) =
     [\<lparr>wk_MID = 3, wk_PID = 1, wk_Role = ''Lead'', wk_Hours = 20\<rparr>]"
proof -
  have h: "distinct (map (\<lambda>w. (wk_MID w, wk_PID w)) (WORKS project_db))"
    "''Developer'' \<noteq> []" "''Lead'' \<noteq> []"
    "2 \<in> set (map lm_MID (LAB_MEMBER project_db))"
    "3 \<in> set (map lm_MID (LAB_MEMBER project_db))"
    "1 \<in> set (map prj_PID (PROJECT project_db))"
    by (simp_all add: project_db_def faculty_db_def busy_db_def empty_db_def)
  have n: "(2::int) \<noteq> 0" "(3::int) \<noteq> 0" by simp_all
  from assign_team_upsert [OF h(1) n(1) h(2,3,4,6), of 12 20]
    assign_team_upsert [OF h(1) n(2) h(2,3,5,6), of 12 20]
  show ?thesis by blast
qed

lemma set_group_by:
  "set (group_by key rs) = (\<lambda>k. (k, filter (\<lambda>r. key r = k) rs)) ` key ` set rs"
  by (simp add: group_by_def)

lemma distinct_group_by: "distinct (map fst (group_by key rs))"
  by (simp add: group_by_def comp_def)

lemma left_join_Cons:
  "left_join (x # xs) ys on =
     (case filter (on x) ys of [] \<Rightarrow> [(x, None)] | m # ms \<Rightarrow> map (\<lambda>y. (x, Some y)) (m # ms))
     @ left_join xs ys on"
  by (simp add: left_join_def)

lemma left_join_Nil: "left_join [] ys on = []"
  by (simp add: left_join_def)

lemma filter_left_join:
  "filter (\<lambda>(x, y). P x) (left_join xs ys on) = left_join (filter P xs) ys on"
proof (induction xs)
  case Nil
  then show ?case by (simp add: left_join_Nil)
next
  case (Cons x xs)
  then show ?case
    by (cases "filter (on x) ys") (simp_all add: left_join_Cons left_join_Nil)
qed

lemma fst_set_left_join: "fst ` set (left_join xs ys on) = set xs"
proof (induction xs)
  case Nil
  then show ?case by (simp add: left_join_Nil)
next
  case (Cons x xs)
  then show ?case
    by (cases "filter (on x) ys") (auto simp: left_join_Cons image_Un image_image)
qed

lemma non_null_matched:
  "non_null (\<lambda>(x, y). map_option g y) (map (\<lambda>y. (x, Some y)) ms) = map g ms"
  by (induction ms) (simp_all add: non_null_def)

lemma non_null_left_join_single:
  "non_null (\<lambda>(x, y). map_option g y) (left_join [x] ys on) = map g (filter (on x) ys)"
proof (cases "filter (on x) ys")
  case Nil
  then show ?thesis by (simp add: left_join_Cons left_join_Nil non_null_def)
next
  case (Cons m ms)
  then have "left_join [x] ys on = map (\<lambda>y. (x, Some y)) (m # ms)"
    by (simp add: left_join_Cons left_join_Nil)
  with Cons show ?thesis by (simp only: non_null_matched)
qed

lemma max_agg_Max:
  assumes "ns \<noteq> []"
  shows "max_agg ns = Some (Max (set ns))"
proof (cases ns)
  case Nil
  with assms show ?thesis by simp
next
  case (Cons n ms)
  then show ?thesis using Max.set_eq_fold [of n ms] by (simp add: max_agg_def)
qed

lemma distinct_map_coarser:
  assumes "distinct (map f xs)" and "\<And>x y. g x = g y \<Longrightarrow> f x = f y"
  shows "distinct (map g xs)"
  using assms(1)
proof (induction xs)
  case Nil
  then show ?case by simp
next
  case (Cons a xs)
  have "g a \<notin> g ` set xs"
  proof
    assume "g a \<in> g ` set xs"
    then obtain y where y: "y \<in> set xs" "g a = g y" by auto
    from y(2) have "f a = f y" by (rule assms(2))
    with y(1) have "f a \<in> f ` set xs" by simp
    with Cons.prems show False by simp
  qed
  with Cons show ?case by simp
qed

lemma pub_counts_set:
  assumes "distinct (map lm_MID (LAB_MEMBER d))"
  shows "set (pub_counts d) =
           (\<lambda>lm. (lm_MID lm, lm_Name lm, lm_MType lm,
                   length (filter (\<lambda>p. ph_MID p = lm_MID lm) (PUBLISHES d)))) ` set (LAB_MEMBER d)"
proof -
  let ?key = "\<lambda>lm. (lm_MID lm, lm_Name lm, lm_MType lm)"
  let ?rows = "left_join (LAB_MEMBER d) (PUBLISHES d) (\<lambda>lm p. lm_MID lm = ph_MID p)"
  have dk: "distinct (map ?key (LAB_MEMBER d))"
    by (rule distinct_map_coarser [OF assms]) simp
  have grp: "count_col (\<lambda>(lm, p). map_option ph_PubID p)
               (filter (\<lambda>r. (case r of (lm, p) \<Rightarrow> ?key lm) = ?key lm) ?rows) =
             length (filter (\<lambda>p. ph_MID p = lm_MID lm) (PUBLISHES d))"
    if "lm \<in> set (LAB_MEMBER d)" for lm
  proof -
    have "filter (\<lambda>r. (case r of (lm', p) \<Rightarrow> ?key lm') = ?key lm) ?rows =
            filter (\<lambda>(lm', p). ?key lm' = ?key lm) ?rows"
      by (simp add: case_prod_unfold)
    also have "\<dots> = left_join (filter (\<lambda>lm'. ?key lm' = ?key lm) (LAB_MEMBER d)) (PUBLISHES d)
                       (\<lambda>lm p. lm_MID lm = ph_MID p)"
      by (rule filter_left_join)
    also have "filter (\<lambda>lm'. ?key lm' = ?key lm) (LAB_MEMBER d) = [lm]"
      by (rule filter_distinct_key [OF dk that])
    finally have e: "filter (\<lambda>r. (case r of (lm', p) \<Rightarrow> ?key lm') = ?key lm) ?rows =
                       left_join [lm] (PUBLISHES d) (\<lambda>lm p. lm_MID lm = ph_MID p)" .
    have "filter (\<lambda>p. lm_MID lm = ph_MID p) (PUBLISHES d) =
            filter (\<lambda>p. ph_MID p = lm_MID lm) (PUBLISHES d)"
      by (rule filter_cong) auto
    then show ?thesis
      unfolding e count_col_def non_null_left_join_single by simp
  qed
  have keys: "(\<lambda>(lm, p). ?key lm) ` set ?rows = ?key ` set (LAB_MEMBER d)"
  proof -
    have "(\<lambda>(lm, p). ?key lm) ` set ?rows = ?key ` fst ` set ?rows"
      by (simp only: image_image case_prod_unfold)
    then show ?thesis by (simp only: fst_set_left_join)
  qed
  let ?kf = "\<lambda>(lm, p). ?key lm"
  let ?F = "\<lambda>((mid, name, mt), rows).
              (mid, name, mt, count_col (\<lambda>(lm, p). map_option ph_PubID p) rows)"
  have "set (pub_counts d) = ?F ` (\<lambda>k. (k, filter (\<lambda>r. ?kf r = k) ?rows)) ` ?kf ` set ?rows"
    by (simp only: pub_counts_def set_map set_group_by)
  also have "\<dots> = (\<lambda>lm. ?F (?key lm, filter (\<lambda>r. ?kf r = ?key lm) ?rows)) ` set (LAB_MEMBER d)"
    by (simp only: keys image_image)
  also have "\<dots> = (\<lambda>lm. (lm_MID lm, lm_Name lm, lm_MType lm,
                   length (filter (\<lambda>p. ph_MID p = lm_MID lm) (PUBLISHES d)))) ` set (LAB_MEMBER d)"
    by (rule image_cong) (simp_all add: grp)
  finally show ?thesis .
qed


lemma Max_image_eq_iff:
  assumes "finite A" and "a \<in> A"
  shows "f a = Max (f ` A) \<longleftrightarrow> (\<forall>b \<in> A. f b \<le> (f a :: nat))"
proof
  assume "f a = Max (f ` A)"
  with assms show "\<forall>b \<in> A. f b \<le> f a" by simp
next
  assume "\<forall>b \<in> A. f b \<le> f a"
  with assms have "Max (f ` A) = f a" by (intro Max_eqI) auto
  then show "f a = Max (f ` A)" by simp
qed

lemma distinct_map_order_by:
  "distinct (map f (order_by le xs)) = distinct (map f xs)"
proof -
  have "mset (map f (order_by le xs)) = mset (map f xs)"
    by (simp add: mset_order_by)
  then show ?thesis by (rule mset_eq_imp_distinct_iff)
qed

lemma map_fst_group_by: "map fst (group_by key rs) = remdups (map key rs)"
  by (simp add: group_by_def comp_def)

lemma key_set_left_join: "(\<lambda>(x, y). k x) ` set (left_join xs ys on) = k ` set xs"
proof -
  have "(\<lambda>(x, y). k x) ` set (left_join xs ys on) = k ` fst ` set (left_join xs ys on)"
    by (simp only: image_image case_prod_unfold)
  then show ?thesis by (simp only: fst_set_left_join)
qed

lemma pub_counts_distinct:
  assumes "distinct (map lm_MID (LAB_MEMBER d))"
  shows "distinct (map (\<lambda>(mid, name, mt, n). mid) (pub_counts d))"
proof -
  let ?key = "\<lambda>lm. (lm_MID lm, lm_Name lm, lm_MType lm)"
  let ?rows = "left_join (LAB_MEMBER d) (PUBLISHES d) (\<lambda>lm p. lm_MID lm = ph_MID p)"
  let ?keys = "remdups (map (\<lambda>(lm, p). ?key lm) ?rows)"
  have ks: "set ?keys = ?key ` set (LAB_MEMBER d)"
    by (simp only: set_remdups set_map key_set_left_join)
  from assms have inj: "inj_on lm_MID (set (LAB_MEMBER d))"
    by (simp only: distinct_map)
  have "inj_on fst (?key ` set (LAB_MEMBER d))"
  proof (rule inj_onI)
    fix k k' :: "int \<times> string \<times> mtype"
    assume "k \<in> ?key ` set (LAB_MEMBER d)"
    then obtain lm where lm: "lm \<in> set (LAB_MEMBER d)" "k = ?key lm" ..
    assume "k' \<in> ?key ` set (LAB_MEMBER d)"
    then obtain lm' where lm': "lm' \<in> set (LAB_MEMBER d)" "k' = ?key lm'" ..
    assume "fst k = fst k'"
    with lm(2) lm'(2) have "lm_MID lm = lm_MID lm'" by simp
    from inj this lm(1) lm'(1) have "lm = lm'" by (rule inj_onD)
    with lm(2) lm'(2) show "k = k'" by simp
  qed
  with ks have "inj_on fst (set ?keys)" by (simp only:)
  then have "distinct (map fst ?keys)" by (simp only: distinct_map distinct_remdups simp_thms)
  moreover have "map (\<lambda>(mid, name, mt, n). mid) (pub_counts d) =
                   map fst (map fst (group_by (\<lambda>(lm, p). ?key lm) ?rows))"
    by (simp add: pub_counts_def case_prod_unfold comp_def)
  ultimately show ?thesis by (simp only: map_fst_group_by)
qed

text \<open>
  C4. With the member keys distinct, the report gives every member the number of its
  PUBLISHES rows (zero for a member without any), and returns exactly the members whose
  number no other member exceeds: all of them when several tie, each once, in the order
  of their names.
\<close>

theorem member_with_most_publications_correct:
  assumes "distinct (map lm_MID (LAB_MEMBER d))"
  shows "set (member_with_most_publications d) =
           {(lm_MID lm, lm_Name lm, lm_MType lm,
             length (filter (\<lambda>p. ph_MID p = lm_MID lm) (PUBLISHES d))) | lm.
              lm \<in> set (LAB_MEMBER d) \<and>
              (\<forall>lm' \<in> set (LAB_MEMBER d).
                 length (filter (\<lambda>p. ph_MID p = lm_MID lm') (PUBLISHES d))
                   \<le> length (filter (\<lambda>p. ph_MID p = lm_MID lm) (PUBLISHES d)))}
       \<and> sorted (map (\<lambda>(mid, name, mt, n). name) (member_with_most_publications d))
       \<and> distinct (map (\<lambda>(mid, name, mt, n). mid) (member_with_most_publications d))"
proof -
  let ?cnt = "\<lambda>lm. length (filter (\<lambda>p. ph_MID p = lm_MID lm) (PUBLISHES d))"
  let ?row = "\<lambda>lm. (lm_MID lm, lm_Name lm, lm_MType lm, ?cnt lm)"
  let ?n = "\<lambda>(mid :: int, name :: string, mt :: mtype, n :: nat). n"
  let ?LM = "set (LAB_MEMBER d)"
  note pc = pub_counts_set [OF assms]
  have res: "set (member_with_most_publications d) =
               {r \<in> set (pub_counts d). Some (?n r) = max_agg (map ?n (pub_counts d))}"
    by (auto simp: member_with_most_publications_def set_order_by)
  have ns: "set (map ?n (pub_counts d)) = ?cnt ` ?LM"
    by (simp add: pc image_image)
  have 1: "set (member_with_most_publications d) =
             {?row lm | lm. lm \<in> ?LM \<and> (\<forall>lm' \<in> ?LM. ?cnt lm' \<le> ?cnt lm)}"
  proof (cases "pub_counts d = []")
    case True
    with pc have "?LM = {}" by simp
    with True res show ?thesis by simp
  next
    case False
    then have "max_agg (map ?n (pub_counts d)) = Some (Max (?cnt ` ?LM))"
      using max_agg_Max [of "map ?n (pub_counts d)"] ns by simp
    with res have "set (member_with_most_publications d) =
                     {r \<in> ?row ` ?LM. ?n r = Max (?cnt ` ?LM)}"
      by (simp add: pc)
    also have "\<dots> = {?row lm | lm. lm \<in> ?LM \<and> ?cnt lm = Max (?cnt ` ?LM)}"
      by auto
    also have "\<dots> = {?row lm | lm. lm \<in> ?LM \<and> (\<forall>lm' \<in> ?LM. ?cnt lm' \<le> ?cnt lm)}"
      using Max_image_eq_iff [of ?LM _ ?cnt] by (intro Collect_cong ex_cong conj_cong refl) simp
    finally show ?thesis .
  qed
  have "sorted_wrt (\<lambda>(mid :: int, name :: string, mt :: mtype, n :: nat) (mid' :: int, name', mt' :: mtype, n' :: nat).
           name \<le> name') (member_with_most_publications d)"
    unfolding member_with_most_publications_def
    by (rule sorted_wrt_order_by) auto
  then have 2: "sorted (map (\<lambda>(mid, name, mt, n). name) (member_with_most_publications d))"
    by (simp add: sorted_map case_prod_unfold)
  have 3: "distinct (map (\<lambda>(mid, name, mt, n). mid) (member_with_most_publications d))"
    unfolding member_with_most_publications_def distinct_map_order_by
    by (rule distinct_map_filter) (rule pub_counts_distinct [OF assms])
  from 1 2 3 show ?thesis by (intro conjI)
qed

theorem member_with_most_publications_correct_witness:
  "member_with_most_publications pubs_db = [(1, ''Ada'', Faculty, 3), (2, ''Ben'', Student, 3)]
   \<and> (3, ''Cleo'', Student, 1) \<notin>
       {(lm_MID lm, lm_Name lm, lm_MType lm,
             length (filter (\<lambda>p. ph_MID p = lm_MID lm) (PUBLISHES pubs_db))) | lm.
              lm \<in> set (LAB_MEMBER pubs_db) \<and>
              (\<forall>lm' \<in> set (LAB_MEMBER pubs_db).
                 length (filter (\<lambda>p. ph_MID p = lm_MID lm') (PUBLISHES pubs_db))
                   \<le> length (filter (\<lambda>p. ph_MID p = lm_MID lm) (PUBLISHES pubs_db)))}
   \<and> sorted (map (\<lambda>(mid, name, mt, n). name) (member_with_most_publications pubs_db))"
proof -
  have e: "member_with_most_publications pubs_db =
             [(1, ''Ada'', Faculty, 3), (2, ''Ben'', Student, 3)]"
    by (simp add: member_with_most_publications_def pub_counts_def group_by_def left_join_def
        count_col_def non_null_def max_agg_def order_by_def pubs_db_def faculty_db_def
        busy_db_def empty_db_def)
  have h: "distinct (map lm_MID (LAB_MEMBER pubs_db))"
    by (simp add: pubs_db_def faculty_db_def busy_db_def empty_db_def)
  note t = member_with_most_publications_correct [OF h]
  from t have s: "set (member_with_most_publications pubs_db) =
           {(lm_MID lm, lm_Name lm, lm_MType lm,
             length (filter (\<lambda>p. ph_MID p = lm_MID lm) (PUBLISHES pubs_db))) | lm.
              lm \<in> set (LAB_MEMBER pubs_db) \<and>
              (\<forall>lm' \<in> set (LAB_MEMBER pubs_db).
                 length (filter (\<lambda>p. ph_MID p = lm_MID lm') (PUBLISHES pubs_db))
                   \<le> length (filter (\<lambda>p. ph_MID p = lm_MID lm) (PUBLISHES pubs_db)))}"
    by (rule conjunct1)
  have c: "(3, ''Cleo'', Student, 1) \<notin> set (member_with_most_publications pubs_db)"
    by (simp add: e)
  from c [unfolded s] have n: "(3, ''Cleo'', Student, 1) \<notin>
       {(lm_MID lm, lm_Name lm, lm_MType lm,
             length (filter (\<lambda>p. ph_MID p = lm_MID lm) (PUBLISHES pubs_db))) | lm.
              lm \<in> set (LAB_MEMBER pubs_db) \<and>
              (\<forall>lm' \<in> set (LAB_MEMBER pubs_db).
                 length (filter (\<lambda>p. ph_MID p = lm_MID lm') (PUBLISHES pubs_db))
                   \<le> length (filter (\<lambda>p. ph_MID p = lm_MID lm) (PUBLISHES pubs_db)))}"
    .
  from t have "sorted (map (\<lambda>(mid, name, mt, n). name) (member_with_most_publications pubs_db))"
    by (simp only:)
  with e n show ?thesis by (intro conjI)
qed

lemma non_null_append: "non_null col (xs @ ys) = non_null col xs @ non_null col ys"
  by (simp add: non_null_def)

lemma left_join_single: "left_join (x # xs) ys on = left_join [x] ys on @ left_join xs ys on"
  by (simp add: left_join_def)

lemma non_null_left_join:
  "non_null (\<lambda>(x, y). map_option g y) (left_join xs ys on) =
     concat (map (\<lambda>x. map g (filter (on x) ys)) xs)"
proof (induction xs)
  case Nil
  then show ?case by (simp add: left_join_Nil non_null_def)
next
  case (Cons x xs)
  have "non_null (\<lambda>(x, y). map_option g y) (left_join (x # xs) ys on) =
          non_null (\<lambda>(x, y). map_option g y) (left_join [x] ys on)
          @ non_null (\<lambda>(x, y). map_option g y) (left_join xs ys on)"
    by (subst left_join_single) (rule non_null_append)
  with Cons show ?case by (simp only: non_null_left_join_single concat.simps list.map)
qed

lemma count_col_left_join:
  "count_col (\<lambda>(x, y). map_option g y) (left_join xs ys on) =
     sum_list (map (\<lambda>x. length (filter (on x) ys)) xs)"
  by (simp add: count_col_def non_null_left_join length_concat comp_def)

lemma count_distinct_left_join:
  assumes "distinct (map k xs)"
  shows "count_distinct (\<lambda>(x, y). Some (k x)) (left_join xs ys on) = length xs"
proof -
  have "non_null (\<lambda>(x, y). Some (k x)) (left_join xs ys on) =
          map (\<lambda>(x, y). k x) (left_join xs ys on)"
    using non_null_Some [of "\<lambda>(x, y). k x" "left_join xs ys on"]
    by (simp only: case_prod_unfold)
  then have "count_distinct (\<lambda>(x, y). Some (k x)) (left_join xs ys on) =
               card ((\<lambda>(x, y). k x) ` set (left_join xs ys on))"
    by (simp only: count_distinct_def length_remdups_card_conv set_map)
  also have "\<dots> = card (k ` set xs)" by (simp only: key_set_left_join)
  also have "\<dots> = card (set (map k xs))" by simp
  also have "\<dots> = length xs" using assms by (simp only: distinct_card length_map)
  finally show ?thesis .
qed

lemma filter_singleton_order_by:
  assumes "filter P xs = [x]"
  shows "filter P (order_by le xs) = [x]"
proof -
  have "mset (filter P (order_by le xs)) = mset (filter P xs)"
    by (simp only: mset_filter mset_order_by)
  with assms have "mset (filter P (order_by le xs)) = {#x#}" by simp
  then show ?thesis by (simp only: mset_single_iff)
qed

lemma round2_nonneg:
  assumes "0 \<le> q"
  shows "\<exists>k. round2 q = of_int k / 100 \<and> of_int k / 100 - 1 / 200 \<le> q
             \<and> q < of_int k / 100 + 1 / 200"
proof -
  let ?k = "\<lfloor>q * 100 + 1 / 2\<rfloor>"
  have lo: "of_int ?k \<le> q * 100 + 1 / 2" by (rule of_int_floor_le)
  have hi: "q * 100 + 1 / 2 < of_int ?k + 1" by linarith
  from assms have "round2 q = of_int ?k / 100" by (simp add: round2_def)
  moreover from lo have "of_int ?k / 100 - 1 / 200 \<le> q" by (simp add: field_simps)
  moreover from hi have "q < of_int ?k / 100 + 1 / 200" by (simp add: field_simps)
  ultimately show ?thesis by blast
qed

lemma round2_minus: "round2 (- q) = - round2 q"
  by (cases q "0 :: rat" rule: linorder_cases) (simp_all add: round2_def floor_eq_iff)

lemma round2_hundredth: "round2 (of_int k / 100) = of_int k / 100"
proof -
  have "\<lfloor>(of_int k :: rat) + 1 / 2\<rfloor> = k" by (simp add: floor_eq_iff)
  moreover have "\<lfloor>- (of_int k :: rat) + 1 / 2\<rfloor> = - k" by (simp add: floor_eq_iff)
  ultimately show ?thesis by (simp add: round2_def)
qed


lemma avg_group:
  assumes "distinct (map stu_MID (STUDENT d))" and "s \<in> set (STUDENT d)" and "stu_Major s = m"
  shows "(\<lambda>(major, rows).
               (major,
                count_distinct (\<lambda>(s, p). Some (stu_MID s)) rows,
                count_col (\<lambda>(s, p). map_option ph_PubID p) rows,
                map_option (\<lambda>n. round2 (of_nat (count_col (\<lambda>(s, p). map_option ph_PubID p) rows)
                                          / of_nat n))
                  (nullif0 (count_distinct (\<lambda>(s, p). Some (stu_MID s)) rows))))
          (m, filter (\<lambda>r. (case r of (s, p) \<Rightarrow> stu_Major s) = m)
                (left_join (STUDENT d) (PUBLISHES d) (\<lambda>s p. stu_MID s = ph_MID p)))
         = (m, major_students d m, major_total d m,
            Some (round2 (of_nat (major_total d m) / of_nat (major_students d m))))"
    and "0 < major_students d m"
proof -
  let ?Sm = "students_in_major d m"
  have f: "filter (\<lambda>r. (case r of (s, p) \<Rightarrow> stu_Major s) = m)
                (left_join (STUDENT d) (PUBLISHES d) (\<lambda>s p. stu_MID s = ph_MID p)) =
           left_join ?Sm (PUBLISHES d) (\<lambda>s p. stu_MID s = ph_MID p)"
    using filter_left_join [of "\<lambda>s. stu_Major s = m" "STUDENT d" "PUBLISHES d"
        "\<lambda>s p. stu_MID s = ph_MID p"]
    by (simp only: students_in_major_def case_prod_unfold)
  have dm: "distinct (map stu_MID ?Sm)"
    unfolding students_in_major_def using assms(1) by (rule distinct_map_filter)
  have n: "count_distinct (\<lambda>(s, p). Some (stu_MID s))
             (left_join ?Sm (PUBLISHES d) (\<lambda>s p. stu_MID s = ph_MID p)) = major_students d m"
    unfolding major_students_def by (rule count_distinct_left_join [OF dm])
  have pc: "(\<lambda>s. length (filter (\<lambda>p. stu_MID s = ph_MID p) (PUBLISHES d))) =
            (\<lambda>s. publication_count d (stu_MID s))"
    by (rule ext) (simp add: publication_count_def eq_commute [of "stu_MID _"])
  have t: "count_col (\<lambda>(s, p). map_option ph_PubID p)
             (left_join ?Sm (PUBLISHES d) (\<lambda>s p. stu_MID s = ph_MID p)) = major_total d m"
    by (simp only: count_col_left_join pc major_total_def)
  from assms(2,3) have "s \<in> set ?Sm" by (simp add: students_in_major_def)
  then have "?Sm \<noteq> []" by (cases ?Sm) simp_all
  then show pos: "0 < major_students d m" by (simp add: major_students_def)
  then show "(\<lambda>(major, rows).
               (major,
                count_distinct (\<lambda>(s, p). Some (stu_MID s)) rows,
                count_col (\<lambda>(s, p). map_option ph_PubID p) rows,
                map_option (\<lambda>n. round2 (of_nat (count_col (\<lambda>(s, p). map_option ph_PubID p) rows)
                                          / of_nat n))
                  (nullif0 (count_distinct (\<lambda>(s, p). Some (stu_MID s)) rows))))
          (m, filter (\<lambda>r. (case r of (s, p) \<Rightarrow> stu_Major s) = m)
                (left_join (STUDENT d) (PUBLISHES d) (\<lambda>s p. stu_MID s = ph_MID p)))
         = (m, major_students d m, major_total d m,
            Some (round2 (of_nat (major_total d m) / of_nat (major_students d m))))"
    by (simp add: f n t nullif0_def)
qed

lemma filter_group_by:
  assumes "k \<in> key ` set rs"
  shows "filter (\<lambda>g. fst g = k) (group_by key rs) = [(k, filter (\<lambda>r. key r = k) rs)]"
proof -
  have "filter (\<lambda>g. fst g = k) (group_by key rs) =
          map (\<lambda>k. (k, filter (\<lambda>r. key r = k) rs)) (filter (\<lambda>x. id x = id k) (remdups (map key rs)))"
    by (simp add: group_by_def filter_map comp_def)
  also have "filter (\<lambda>x. id x = id k) (remdups (map key rs)) = [k]"
    using assms by (intro filter_distinct_key) simp_all
  finally show ?thesis by simp
qed

text \<open>
  C6. With the student keys distinct, every major that has a student has exactly one row
  in the average report. The row holds the number of the major's students, the total of
  their publication counts (a publication written by two students of the major counts
  twice), and as the average a number of hundredths that lies within half a hundredth of
  the total divided by the number of students, the upper one when the quotient is midway
  between two: the quotient rounded to two decimals. No row has zero students or a NULL
  average, so nothing is divided by zero. Two physics students with two and no
  publications give students = 2, total_pubs = 2 and avg_pubs = 1; three chemistry
  students with two authorships give 0.67.
\<close>

theorem avg_publications_by_major_correct:
  assumes "distinct (map stu_MID (STUDENT d))"
  shows "(\<forall>s \<in> set (STUDENT d). \<exists>k :: int.
            filter (\<lambda>(major, students, total_pubs, avg_pubs). major = stu_Major s)
              (avg_publications_by_major d) =
              [(stu_Major s, major_students d (stu_Major s), major_total d (stu_Major s),
                Some (of_int k / 100))]
            \<and> of_int k / 100 - 1 / 200
                 \<le> (of_nat (major_total d (stu_Major s)) / of_nat (major_students d (stu_Major s)) :: rat)
            \<and> (of_nat (major_total d (stu_Major s)) / of_nat (major_students d (stu_Major s)) :: rat)
                 < of_int k / 100 + 1 / 200)
       \<and> (\<forall>(major, students, total_pubs, avg_pubs) \<in> set (avg_publications_by_major d).
            0 < students \<and> avg_pubs \<noteq> None \<and> students_in_major d major \<noteq> [])"
proof -
  let ?rows = "left_join (STUDENT d) (PUBLISHES d) (\<lambda>s p. stu_MID s = ph_MID p)"
  let ?kf = "\<lambda>(s :: student_row, p :: publishes_row option). stu_Major s"
  let ?G = "\<lambda>(major :: string, rows).
               (major,
                count_distinct (\<lambda>(s, p). Some (stu_MID s)) rows,
                count_col (\<lambda>(s, p). map_option ph_PubID p) rows,
                map_option (\<lambda>n. round2 (of_nat (count_col (\<lambda>(s, p). map_option ph_PubID p) rows)
                                          / of_nat n))
                  (nullif0 (count_distinct (\<lambda>(s, p). Some (stu_MID s)) rows)))"
  let ?le = "\<lambda>(major :: string, students :: nat, total_pubs :: nat, avg_pubs)
              (major' :: string, students' :: nat, total_pubs' :: nat, avg_pubs').
                 avg_desc avg_pubs avg_pubs'"
  let ?q = "\<lambda>m. (of_nat (major_total d m) / of_nat (major_students d m) :: rat)"
  let ?row = "\<lambda>m. (m, major_students d m, major_total d m, Some (round2 (?q m)))"
  have rep: "avg_publications_by_major d = order_by ?le (map ?G (group_by ?kf ?rows))"
    by (simp only: avg_publications_by_major_def)
  have keys: "?kf ` set ?rows = stu_Major ` set (STUDENT d)"
    by (rule key_set_left_join)
  have grp: "?G (stu_Major s, filter (\<lambda>r. ?kf r = stu_Major s) ?rows) = ?row (stu_Major s)"
    if "s \<in> set (STUDENT d)" for s
    by (rule avg_group (1) [OF assms that refl])
  have one: "filter (\<lambda>(major, students, total_pubs, avg_pubs). major = stu_Major s)
              (avg_publications_by_major d) = [?row (stu_Major s)]"
    if s: "s \<in> set (STUDENT d)" for s
  proof -
    from s keys have k: "stu_Major s \<in> ?kf ` set ?rows" by simp
    have "filter (\<lambda>(major, students, total_pubs, avg_pubs). major = stu_Major s)
            (map ?G (group_by ?kf ?rows)) =
          map ?G (filter (\<lambda>g. fst g = stu_Major s) (group_by ?kf ?rows))"
      by (simp add: filter_map comp_def case_prod_unfold)
    also have "\<dots> = [?row (stu_Major s)]"
      by (simp only: filter_group_by [OF k] list.map grp [OF s])
    finally show ?thesis
      unfolding rep by (rule filter_singleton_order_by)
  qed
  have 1: "\<exists>k :: int.
            filter (\<lambda>(major, students, total_pubs, avg_pubs). major = stu_Major s)
              (avg_publications_by_major d) =
              [(stu_Major s, major_students d (stu_Major s), major_total d (stu_Major s),
                Some (of_int k / 100))]
            \<and> of_int k / 100 - 1 / 200 \<le> ?q (stu_Major s)
            \<and> ?q (stu_Major s) < of_int k / 100 + 1 / 200"
    if s: "s \<in> set (STUDENT d)" for s
  proof -
    have "0 \<le> ?q (stu_Major s)" by simp
    from round2_nonneg [OF this] obtain k :: int
      where k: "round2 (?q (stu_Major s)) = of_int k / 100"
        "of_int k / 100 - 1 / 200 \<le> ?q (stu_Major s)"
        "?q (stu_Major s) < of_int k / 100 + 1 / 200"
      by blast
    from one [OF s] k(1)
    have "filter (\<lambda>(major, students, total_pubs, avg_pubs). major = stu_Major s)
              (avg_publications_by_major d) =
              [(stu_Major s, major_students d (stu_Major s), major_total d (stu_Major s),
                Some (of_int k / 100))]"
      by (simp only:)
    with k(2,3) show ?thesis by blast
  qed
  have 2: "0 < students \<and> avg_pubs \<noteq> None \<and> students_in_major d major \<noteq> []"
    if r: "(major, students, total_pubs, avg_pubs) \<in> set (avg_publications_by_major d)"
    for major students total_pubs avg_pubs
  proof -
    from r have "(major, students, total_pubs, avg_pubs) \<in> ?G ` set (group_by ?kf ?rows)"
      by (simp only: rep set_order_by set_map)
    then obtain g where g: "g \<in> set (group_by ?kf ?rows)"
      and eg: "(major, students, total_pubs, avg_pubs) = ?G g" by (rule imageE)
    from g have "g \<in> (\<lambda>k. (k, filter (\<lambda>r. ?kf r = k) ?rows)) ` ?kf ` set ?rows"
      by (simp only: set_group_by)
    then obtain k where k: "k \<in> ?kf ` set ?rows"
      and gk: "g = (k, filter (\<lambda>r. ?kf r = k) ?rows)" by (rule imageE)
    from eg gk
    have e: "(major, students, total_pubs, avg_pubs) = ?G (k, filter (\<lambda>r. ?kf r = k) ?rows)"
      by (simp only:)
    from k keys obtain s where s: "s \<in> set (STUDENT d)" "k = stu_Major s" by auto
    from e s(2)
    have "(major, students, total_pubs, avg_pubs) =
            ?G (stu_Major s, filter (\<lambda>r. ?kf r = stu_Major s) ?rows)"
      by (simp only:)
    also have "\<dots> = ?row (stu_Major s)" by (rule grp [OF s(1)])
    finally have row: "(major, students, total_pubs, avg_pubs) = ?row (stu_Major s)" .
    from avg_group (2) [OF assms s(1) refl]
    have "0 < major_students d (stu_Major s)" .
    with row show ?thesis by (auto simp: major_students_def)
  qed
  from 1 2 show ?thesis by (intro conjI ballI) auto
qed

theorem avg_publications_by_major_correct_witness:
  "filter (\<lambda>(major, students, total_pubs, avg_pubs). major = ''Physics'')
     (avg_publications_by_major physics_db) = [(''Physics'', 2, 2, Some 1)]
   \<and> filter (\<lambda>(major, students, total_pubs, avg_pubs). major = ''Chemistry'')
     (avg_publications_by_major chemistry_db) = [(''Chemistry'', 3, 2, Some (67 / 100))]
   \<and> avg_publications_by_major chemistry_db = [(''Chemistry'', 3, 2, Some (67 / 100))]
   \<and> students_in_major chemistry_db ''Chemistry'' \<noteq> []"
proof -
  let ?ben = "\<lparr>stu_MID = 2, stu_SID = ''S-1001'', stu_Level = ''Senior'', stu_Major = ''Physics''\<rparr>"
  let ?gus = "\<lparr>stu_MID = 11, stu_SID = ''S-2001'', stu_Level = ''Senior'',
                stu_Major = ''Chemistry''\<rparr>"
  have hp: "distinct (map stu_MID (STUDENT physics_db))"
    by (simp add: physics_db_def faculty_db_def busy_db_def empty_db_def)
  have hc: "distinct (map stu_MID (STUDENT chemistry_db))"
    by (simp add: chemistry_db_def empty_db_def)
  have sp: "?ben \<in> set (STUDENT physics_db)"
    by (simp add: physics_db_def faculty_db_def busy_db_def empty_db_def)
  have sc: "?gus \<in> set (STUDENT chemistry_db)"
    by (simp add: chemistry_db_def empty_db_def)
  have np: "major_students physics_db ''Physics'' = 2" "major_total physics_db ''Physics'' = 2"
    by (simp_all add: major_students_def major_total_def students_in_major_def
        publication_count_def physics_db_def faculty_db_def busy_db_def empty_db_def)
  have nc: "major_students chemistry_db ''Chemistry'' = 3"
    "major_total chemistry_db ''Chemistry'' = 2"
    by (simp_all add: major_students_def major_total_def students_in_major_def
        publication_count_def chemistry_db_def empty_db_def)
  note tp = avg_publications_by_major_correct [OF hp]
  note tc = avg_publications_by_major_correct [OF hc]
  from tp sp obtain k :: int where k:
    "filter (\<lambda>(major, students, total_pubs, avg_pubs). major = stu_Major ?ben)
       (avg_publications_by_major physics_db) =
       [(stu_Major ?ben, major_students physics_db (stu_Major ?ben),
         major_total physics_db (stu_Major ?ben), Some (of_int k / 100))]"
    "of_int k / 100 - 1 / 200
       \<le> (of_nat (major_total physics_db (stu_Major ?ben))
            / of_nat (major_students physics_db (stu_Major ?ben)) :: rat)"
    "(of_nat (major_total physics_db (stu_Major ?ben))
            / of_nat (major_students physics_db (stu_Major ?ben)) :: rat)
       < of_int k / 100 + 1 / 200"
    by blast
  from k(2,3) have "(of_int k :: rat) < of_int 101" "(of_int 99 :: rat) < of_int k"
    by (simp_all add: np)
  then have "k < 101" "99 < k" by (simp_all only: of_int_less_iff)
  then have "k = 100" by simp
  with k(1) have 1: "filter (\<lambda>(major, students, total_pubs, avg_pubs). major = ''Physics'')
     (avg_publications_by_major physics_db) = [(''Physics'', 2, 2, Some 1)]"
    by (simp add: np)
  from tc sc obtain j :: int where j:
    "filter (\<lambda>(major, students, total_pubs, avg_pubs). major = stu_Major ?gus)
       (avg_publications_by_major chemistry_db) =
       [(stu_Major ?gus, major_students chemistry_db (stu_Major ?gus),
         major_total chemistry_db (stu_Major ?gus), Some (of_int j / 100))]"
    "of_int j / 100 - 1 / 200
       \<le> (of_nat (major_total chemistry_db (stu_Major ?gus))
            / of_nat (major_students chemistry_db (stu_Major ?gus)) :: rat)"
    "(of_nat (major_total chemistry_db (stu_Major ?gus))
            / of_nat (major_students chemistry_db (stu_Major ?gus)) :: rat)
       < of_int j / 100 + 1 / 200"
    by blast
  from j(2,3) have "(of_int j :: rat) < of_int 68" "(of_int 66 :: rat) < of_int j"
    by (simp_all add: nc)
  then have "j < 68" "66 < j" by (simp_all only: of_int_less_iff)
  then have "j = 67" by simp
  with j(1) have 2: "filter (\<lambda>(major, students, total_pubs, avg_pubs). major = ''Chemistry'')
     (avg_publications_by_major chemistry_db) = [(''Chemistry'', 3, 2, Some (67 / 100))]"
    by (simp add: nc)
  have 3: "avg_publications_by_major chemistry_db = [(''Chemistry'', 3, 2, Some (67 / 100))]"
    by (simp add: avg_publications_by_major_def group_by_def left_join_def count_distinct_def
        count_col_def non_null_def nullif0_def round2_def floor_eq_iff order_by_def
        chemistry_db_def empty_db_def)
  have "(''Chemistry'', 3, 2, Some (67 / 100)) \<in> set (avg_publications_by_major chemistry_db)"
    by (simp add: 3)
  with tc have 4: "students_in_major chemistry_db ''Chemistry'' \<noteq> []" by blast
  from 1 2 3 4 show ?thesis by (intro conjI)
qed

lemma filter_distinct_key_le1:
  assumes "distinct (map f xs)"
  shows "filter (\<lambda>y. f y = k) xs = [] \<or> (\<exists>x. filter (\<lambda>y. f y = k) xs = [x])"
proof (cases "k \<in> set (map f xs)")
  case False
  then show ?thesis by (simp add: filter_key_absent)
next
  case True
  then obtain x where x: "x \<in> set xs" "k = f x" by auto
  from filter_distinct_key [OF assms x(1)] x(2) show ?thesis by simp
qed

lemma left_join_at_most_one:
  assumes "\<And>x. x \<in> set xs \<Longrightarrow> filter (on x) ys = [] \<or> (\<exists>y. filter (on x) ys = [y])"
  shows "left_join xs ys on =
           map (\<lambda>x. (x, case filter (on x) ys of [] \<Rightarrow> None | y # rest \<Rightarrow> Some y)) xs"
  using assms
proof (induction xs)
  case Nil
  then show ?case by (simp add: left_join_Nil)
next
  case (Cons x xs)
  from Cons.prems [of x] have "filter (on x) ys = [] \<or> (\<exists>y. filter (on x) ys = [y])" by simp
  then have "left_join [x] ys on =
               [(x, case filter (on x) ys of [] \<Rightarrow> None | y # rest \<Rightarrow> Some y)]"
    by (auto simp: left_join_Cons left_join_Nil)
  moreover have "left_join xs ys on =
           map (\<lambda>x. (x, case filter (on x) ys of [] \<Rightarrow> None | y # rest \<Rightarrow> Some y)) xs"
    by (rule Cons.IH) (simp add: Cons.prems)
  ultimately show ?case by (subst left_join_single) simp
qed

lemma leader_join:
  assumes "distinct (map lm_MID (LAB_MEMBER d))"
  shows "filter (\<lambda>lm. prj_LeaderMID p = Some (lm_MID lm)) (LAB_MEMBER d) = []
           \<or> (\<exists>y. filter (\<lambda>lm. prj_LeaderMID p = Some (lm_MID lm)) (LAB_MEMBER d) = [y])"
proof (cases "prj_LeaderMID p")
  case None
  then show ?thesis by simp
next
  case (Some mid)
  have "filter (\<lambda>lm. Some mid = Some (lm_MID lm)) (LAB_MEMBER d) =
          filter (\<lambda>lm. lm_MID lm = mid) (LAB_MEMBER d)"
    by (rule filter_cong) auto
  with Some filter_distinct_key_le1 [OF assms, of mid] show ?thesis by simp
qed

lemma leader_column:
  "coalesce (map_option lm_Name
       (case filter (\<lambda>lm. prj_LeaderMID p = Some (lm_MID lm)) (LAB_MEMBER d) of
          [] \<Rightarrow> None | y # rest \<Rightarrow> Some y)) ''Unassigned'' = leader_name d p"
proof (cases "prj_LeaderMID p")
  case None
  then show ?thesis by (simp add: coalesce_def leader_name_def)
next
  case (Some mid)
  have "filter (\<lambda>lm. Some mid = Some (lm_MID lm)) (LAB_MEMBER d) =
          filter (\<lambda>lm. lm_MID lm = mid) (LAB_MEMBER d)"
    by (rule filter_cong) auto
  with Some show ?thesis
    by (simp add: coalesce_def leader_name_def split: list.splits)
qed

lemma status_then_start_desc_total: "status_then_start_desc p q \<or> status_then_start_desc q p"
  unfolding status_then_start_desc_def
  by (cases "prj_Status p" "prj_Status q" rule: linorder_cases) auto

lemma status_then_start_desc_trans:
  "status_then_start_desc p q \<Longrightarrow> status_then_start_desc q r \<Longrightarrow> status_then_start_desc p r"
  unfolding status_then_start_desc_def by (auto intro: order_trans)

text \<open>
  C9. With the member keys distinct, the project roster has one row for each project,
  holding the project's columns and the name of its leader, or \<open>Unassigned\<close> when the
  leader key is NULL or names no member; and the rows are ordered by status, rows of
  equal status by start date, the latest first.
\<close>

theorem list_all_projects_correct:
  assumes "distinct (map lm_MID (LAB_MEMBER d))"
  shows "mset (list_all_projects d) =
           mset (map (\<lambda>p. (prj_PID p, prj_Title p, prj_Status p, prj_SDate p, prj_EDate p,
                              leader_name d p)) (PROJECT d))
       \<and> sorted_wrt (\<lambda>(pid, title, status, start_date, rest) (pid', title', status', start_date', rest').
                       status < status' \<or> (status = status' \<and> start_date' \<le> start_date))
           (list_all_projects d)"
proof -
  let ?on = "\<lambda>p lm. prj_LeaderMID p = Some (lm_MID lm)"
  let ?look = "\<lambda>p. case filter (?on p) (LAB_MEMBER d) of [] \<Rightarrow> None | y # rest \<Rightarrow> Some y"
  let ?R = "\<lambda>(p, lm). (prj_PID p, prj_Title p, prj_Status p, prj_SDate p, prj_EDate p,
                       coalesce (map_option lm_Name lm) ''Unassigned'')"
  let ?le = "\<lambda>(p :: project_row, lm :: lab_member_row option) (q :: project_row, lm' :: lab_member_row option).
               status_then_start_desc p q"
  have j: "left_join (PROJECT d) (LAB_MEMBER d) ?on = map (\<lambda>p. (p, ?look p)) (PROJECT d)"
    by (rule left_join_at_most_one) (rule leader_join [OF assms])
  have def: "list_all_projects d = map ?R (order_by ?le (map (\<lambda>p. (p, ?look p)) (PROJECT d)))"
    by (simp only: list_all_projects_def j)
  have "mset (list_all_projects d) = mset (map ?R (map (\<lambda>p. (p, ?look p)) (PROJECT d)))"
    by (simp only: def mset_map mset_order_by)
  also have "map ?R (map (\<lambda>p. (p, ?look p)) (PROJECT d)) =
               map (\<lambda>p. (prj_PID p, prj_Title p, prj_Status p, prj_SDate p, prj_EDate p,
                              leader_name d p)) (PROJECT d)"
    by (simp add: comp_def leader_column)
  finally have 1: "mset (list_all_projects d) =
           mset (map (\<lambda>p. (prj_PID p, prj_Title p, prj_Status p, prj_SDate p, prj_EDate p,
                              leader_name d p)) (PROJECT d))" .
  have "sorted_wrt ?le (order_by ?le (map (\<lambda>p. (p, ?look p)) (PROJECT d)))"
  proof (rule sorted_wrt_order_by)
    show "?le a b \<or> ?le b a" for a b
      using status_then_start_desc_total [of "fst a" "fst b"] by (simp add: case_prod_unfold)
    show "?le a c" if "?le a b" "?le b c" for a b c
      using that status_then_start_desc_trans [of "fst a" "fst b" "fst c"]
      by (simp add: case_prod_unfold)
  qed
  then have 2: "sorted_wrt (\<lambda>(pid, title, status, start_date, rest) (pid', title', status', start_date', rest').
                       status < status' \<or> (status = status' \<and> start_date' \<le> start_date))
           (list_all_projects d)"
    by (simp add: def sorted_wrt_map case_prod_unfold status_then_start_desc_def)
  from 1 2 show ?thesis by (rule conjI)
qed

theorem list_all_projects_correct_witness:
  "list_all_projects roster_db =
     [(3, ''Gamma'', ''Active'', (2024, 2, 1), None, ''Ada''),
      (1, ''Alpha'', ''Active'', (2023, 1, 1), None, ''Ada''),
      (2, ''Beta'', ''Completed'', (2021, 6, 1), Some (2022, 6, 1), ''Unassigned'')]
   \<and> sorted_wrt (\<lambda>(pid, title, status, start_date, rest) (pid', title', status', start_date', rest').
                       status < status' \<or> (status = status' \<and> start_date' \<le> start_date))
           (list_all_projects roster_db)"
proof -
  have h: "distinct (map lm_MID (LAB_MEMBER roster_db))"
    by (simp add: roster_db_def faculty_db_def busy_db_def empty_db_def)
  have e: "list_all_projects roster_db =
     [(3, ''Gamma'', ''Active'', (2024, 2, 1), None, ''Ada''),
      (1, ''Alpha'', ''Active'', (2023, 1, 1), None, ''Ada''),
      (2, ''Beta'', ''Completed'', (2021, 6, 1), Some (2022, 6, 1), ''Unassigned'')]"
    by (simp add: list_all_projects_def left_join_def order_by_def status_then_start_desc_def
        coalesce_def roster_db_def faculty_db_def busy_db_def empty_db_def)
  from list_all_projects_correct [OF h]
  have "sorted_wrt (\<lambda>(pid, title, status, start_date, rest) (pid', title', status', start_date', rest').
                       status < status' \<or> (status = status' \<and> start_date' \<le> start_date))
           (list_all_projects roster_db)"
    by (rule conjunct2)
  with e show ?thesis by (rule conjI)
qed

text \<open>
  C8 as stated fails: neither aggregate removes repeated text. A grant that funds two
  projects called Robotics shows the title twice, and a publication by two members called
  Alex Kim shows the name twice.
\<close>

theorem rosters_keep_duplicates_counterexample:
  "list_all_grants namesake_db =
     [(2, ''DOE'', 20000, (2024, 1, 1), 12, ''None''),
      (1, ''NSF'', 50000, (2021, 1, 1), 36, ''Robotics, Robotics'')]
   \<and> list_all_publications namesake_db =
     [(2, ''Draft'', (2024, 5, 1), ''Notes'', ''No authors''),
      (1, ''Survey'', (2023, 5, 1), ''ICRA'', ''Alex Kim, Alex Kim'')]"
  by (simp add: list_all_grants_def list_all_publications_def group_by_def left_join_def
      non_null_def string_agg_def coalesce_def order_by_def namesake_db_def empty_db_def)

lemma key_set_double_left_join:
  "(\<lambda>((x, y), z). k x) ` set (left_join (left_join xs ys on1) zs on2) = k ` set xs"
proof -
  have "(\<lambda>((x, y), z). k x) ` set (left_join (left_join xs ys on1) zs on2) =
          (\<lambda>(x, y). k x) ` fst ` set (left_join (left_join xs ys on1) zs on2)"
    by (simp only: image_image case_prod_unfold)
  also have "\<dots> = (\<lambda>(x, y). k x) ` set (left_join xs ys on1)"
    by (simp only: fst_set_left_join)
  finally show ?thesis by (simp only: key_set_left_join)
qed

lemma filter_double_left_join:
  assumes "distinct (map k xs)" and "x \<in> set xs"
  shows "filter (\<lambda>r. (case r of ((x', y), z) \<Rightarrow> k x') = k x)
           (left_join (left_join xs ys on1) zs on2) =
         left_join (left_join [x] ys on1) zs on2"
proof -
  have "filter (\<lambda>r. (case r of ((x', y), z) \<Rightarrow> k x') = k x)
           (left_join (left_join xs ys on1) zs on2) =
        filter (\<lambda>(xy, z). (case xy of (x', y) \<Rightarrow> k x' = k x))
           (left_join (left_join xs ys on1) zs on2)"
    by (simp only: case_prod_unfold)
  also have "\<dots> = left_join (filter (\<lambda>(x', y). k x' = k x) (left_join xs ys on1)) zs on2"
    by (rule filter_left_join)
  also have "filter (\<lambda>(x', y). k x' = k x) (left_join xs ys on1) =
               left_join (filter (\<lambda>x'. k x' = k x) xs) ys on1"
    by (rule filter_left_join)
  also have "filter (\<lambda>x'. k x' = k x) xs = [x]"
    by (rule filter_distinct_key [OF assms])
  finally show ?thesis .
qed

lemma non_null_double_left_join:
  "non_null (\<lambda>((x, y), z). map_option g z)
     (left_join (left_join [x] ys on1) zs
        (\<lambda>(x, y) z. case y of None \<Rightarrow> False | Some y' \<Rightarrow> on2 y' z)) =
   concat (map (\<lambda>y. map g (filter (on2 y) zs)) (filter (on1 x) ys))"
proof -
  let ?on = "\<lambda>(x, y) z. case y of None \<Rightarrow> False | Some y' \<Rightarrow> on2 y' z"
  have "non_null (\<lambda>((x, y), z). map_option g z) (left_join (left_join [x] ys on1) zs ?on) =
          non_null (\<lambda>(xy, z). map_option g z) (left_join (left_join [x] ys on1) zs ?on)"
    by (simp only: case_prod_unfold)
  also have "\<dots> = concat (map (\<lambda>xy. map g (filter (?on xy) zs)) (left_join [x] ys on1))"
    by (rule non_null_left_join)
  also have "\<dots> = concat (map (\<lambda>y. map g (filter (on2 y) zs)) (filter (on1 x) ys))"
    by (cases "filter (on1 x) ys") (simp_all add: left_join_Cons left_join_Nil comp_def)
  finally show ?thesis .
qed

lemma coalesce_string_agg: "coalesce (string_agg '', '' vs) none = shown_list none vs"
  by (cases vs) (simp_all add: coalesce_def string_agg_def shown_list_def)

lemma mset_eq_of_set_eq:
  assumes "distinct (map f xs)" and "distinct (map g ys)" and "set xs = set ys"
  shows "mset xs = mset ys"
proof -
  from assms(1) have "distinct xs" by (simp add: distinct_map)
  moreover from assms(2) have "distinct ys" by (simp add: distinct_map)
  ultimately show ?thesis using assms(3) by (simp only: set_eq_iff_mset_eq_distinct)
qed


lemma list_all_grants_set:
  assumes "distinct (map gr_GID (GRANT_TABLE d))"
  shows "set (list_all_grants d) =
           (\<lambda>g. (gr_GID g, gr_Source g, gr_Budget g, gr_StartDate g, gr_Duration g,
                   shown_list ''None'' (funded_titles d (gr_GID g)))) ` set (GRANT_TABLE d)"
proof -
  let ?key = "\<lambda>g. (gr_GID g, gr_Source g, gr_Budget g, gr_StartDate g, gr_Duration g)"
  let ?on2 = "\<lambda>(g :: grant_row, f) p. case f of None \<Rightarrow> False | Some f' \<Rightarrow> fd_PID f' = prj_PID p"
  let ?rows = "left_join (left_join (GRANT_TABLE d) (FUNDS d) (\<lambda>g f. gr_GID g = fd_GID f))
                 (PROJECT d) ?on2"
  let ?kf = "\<lambda>((g, f :: funds_row option), p :: project_row option). ?key g"
  let ?H = "\<lambda>((gid :: int, source :: string, budget :: rat, start_date :: date, duration :: int), rows).
               (gid, source, budget, start_date, duration,
                coalesce (string_agg '', ''
                            (non_null (\<lambda>((g :: grant_row, f :: funds_row option), p). map_option prj_Title p) rows))
                  ''None'')"
  have dk: "distinct (map ?key (GRANT_TABLE d))"
    by (rule distinct_map_coarser [OF assms]) simp
  have titles: "concat (map (\<lambda>f. map prj_Title (filter (\<lambda>p. fd_PID f = prj_PID p) (PROJECT d)))
                  (filter (\<lambda>f. gr_GID g = fd_GID f) (FUNDS d))) = funded_titles d (gr_GID g)" for g
  proof -
    have a: "filter (\<lambda>f. gr_GID g = fd_GID f) (FUNDS d) = filter (\<lambda>f. fd_GID f = gr_GID g) (FUNDS d)"
      by (rule filter_cong) auto
    have b: "(\<lambda>f. map prj_Title (filter (\<lambda>p. fd_PID f = prj_PID p) (PROJECT d))) =
             (\<lambda>f. map prj_Title (filter (\<lambda>p. prj_PID p = fd_PID f) (PROJECT d)))"
      by (rule ext) (rule arg_cong [where f = "map prj_Title"], rule filter_cong, auto)
    show ?thesis by (simp only: a b funded_titles_def)
  qed
  have grp: "?H (?key g, filter (\<lambda>r. ?kf r = ?key g) ?rows) =
               (gr_GID g, gr_Source g, gr_Budget g, gr_StartDate g, gr_Duration g,
                shown_list ''None'' (funded_titles d (gr_GID g)))"
    if "g \<in> set (GRANT_TABLE d)" for g
  proof -
    note f = filter_double_left_join [where k = "?key", OF dk that, unfolded case_prod_unfold]
    note n = non_null_double_left_join [where ?on2.0 = "\<lambda>f p. fd_PID f = prj_PID p"
        and g = prj_Title, unfolded case_prod_unfold]
    show ?thesis
      unfolding case_prod_unfold fst_conv snd_conv
      by (simp only: f n titles coalesce_string_agg)
  qed
  have keys: "?kf ` set ?rows = ?key ` set (GRANT_TABLE d)"
    by (rule key_set_double_left_join)
  have "set (list_all_grants d) = ?H ` set (group_by ?kf ?rows)"
    by (simp only: list_all_grants_def set_order_by set_map)
  also have "\<dots> = ?H ` (\<lambda>k. (k, filter (\<lambda>r. ?kf r = k) ?rows)) ` ?kf ` set ?rows"
    by (simp only: set_group_by)
  also have "\<dots> = (\<lambda>g. ?H (?key g, filter (\<lambda>r. ?kf r = ?key g) ?rows)) ` set (GRANT_TABLE d)"
    by (simp only: keys image_image)
  also have "\<dots> = (\<lambda>g. (gr_GID g, gr_Source g, gr_Budget g, gr_StartDate g, gr_Duration g,
                   shown_list ''None'' (funded_titles d (gr_GID g)))) ` set (GRANT_TABLE d)"
    by (rule image_cong) (simp_all only: grp)
  finally show ?thesis .
qed

lemma list_all_grants_distinct:
  "distinct (map (\<lambda>(gid, source, budget, start_date, duration, projects).
                    (gid, source, budget, start_date, duration)) (list_all_grants d))"
proof -
  have "distinct (map fst (group_by k rs))" for k :: "'r \<Rightarrow> 'k" and rs
    by (rule distinct_group_by)
  then show ?thesis
    unfolding list_all_grants_def distinct_map_order_by
    by (simp add: comp_def case_prod_unfold)
qed


lemma list_all_publications_set:
  assumes "distinct (map pub_PubID (PUBLICATION d))"
  shows "set (list_all_publications d) =
           (\<lambda>pub. (pub_PubID pub, pub_Title pub, pub_PubDate pub, pub_Venue pub,
                     shown_list ''No authors''
                       (order_by (\<le>) (author_names d (pub_PubID pub))))) ` set (PUBLICATION d)"
proof -
  let ?key = "\<lambda>pub. (pub_PubID pub, pub_Title pub, pub_PubDate pub, pub_Venue pub)"
  let ?on2 = "\<lambda>(pub :: publication_row, p) lm.
                case p of None \<Rightarrow> False | Some p' \<Rightarrow> ph_MID p' = lm_MID lm"
  let ?rows = "left_join (left_join (PUBLICATION d) (PUBLISHES d) (\<lambda>pub p. pub_PubID pub = ph_PubID p))
                 (LAB_MEMBER d) ?on2"
  let ?kf = "\<lambda>((pub, p :: publishes_row option), lm :: lab_member_row option). ?key pub"
  let ?H = "\<lambda>((pubid :: int, title :: string, pdate :: date, venue :: string), rows).
               (pubid, title, pdate, venue,
                coalesce (string_agg '', ''
                            (order_by (\<le>)
                               (non_null (\<lambda>((pub :: publication_row, p :: publishes_row option), lm).
                                            map_option lm_Name lm) rows)))
                  ''No authors'')"
  have dk: "distinct (map ?key (PUBLICATION d))"
    by (rule distinct_map_coarser [OF assms]) simp
  have names: "concat (map (\<lambda>a. map lm_Name (filter (\<lambda>lm. ph_MID a = lm_MID lm) (LAB_MEMBER d)))
                  (filter (\<lambda>a. pub_PubID pub = ph_PubID a) (PUBLISHES d))) =
               author_names d (pub_PubID pub)" for pub
  proof -
    have a: "filter (\<lambda>a. pub_PubID pub = ph_PubID a) (PUBLISHES d) =
             filter (\<lambda>a. ph_PubID a = pub_PubID pub) (PUBLISHES d)"
      by (rule filter_cong) auto
    have b: "(\<lambda>a. map lm_Name (filter (\<lambda>lm. ph_MID a = lm_MID lm) (LAB_MEMBER d))) =
             (\<lambda>a. map lm_Name (filter (\<lambda>lm. lm_MID lm = ph_MID a) (LAB_MEMBER d)))"
      by (rule ext) (rule arg_cong [where f = "map lm_Name"], rule filter_cong, auto)
    show ?thesis by (simp only: a b author_names_def)
  qed
  have grp: "?H (?key pub, filter (\<lambda>r. ?kf r = ?key pub) ?rows) =
               (pub_PubID pub, pub_Title pub, pub_PubDate pub, pub_Venue pub,
                shown_list ''No authors'' (order_by (\<le>) (author_names d (pub_PubID pub))))"
    if "pub \<in> set (PUBLICATION d)" for pub
  proof -
    note f = filter_double_left_join [where k = "?key", OF dk that, unfolded case_prod_unfold]
    note n = non_null_double_left_join [where ?on2.0 = "\<lambda>p lm. ph_MID p = lm_MID lm"
        and g = lm_Name, unfolded case_prod_unfold]
    show ?thesis
      unfolding case_prod_unfold fst_conv snd_conv
      by (simp only: f n names coalesce_string_agg)
  qed
  have keys: "?kf ` set ?rows = ?key ` set (PUBLICATION d)"
    by (rule key_set_double_left_join)
  have "set (list_all_publications d) = ?H ` set (group_by ?kf ?rows)"
    by (simp only: list_all_publications_def set_order_by set_map)
  also have "\<dots> = ?H ` (\<lambda>k. (k, filter (\<lambda>r. ?kf r = k) ?rows)) ` ?kf ` set ?rows"
    by (simp only: set_group_by)
  also have "\<dots> = (\<lambda>pub. ?H (?key pub, filter (\<lambda>r. ?kf r = ?key pub) ?rows)) ` set (PUBLICATION d)"
    by (simp only: keys image_image)
  also have "\<dots> = (\<lambda>pub. (pub_PubID pub, pub_Title pub, pub_PubDate pub, pub_Venue pub,
                     shown_list ''No authors''
                       (order_by (\<le>) (author_names d (pub_PubID pub))))) ` set (PUBLICATION d)"
    by (rule image_cong) (simp_all only: grp)
  finally show ?thesis .
qed

lemma list_all_publications_distinct:
  "distinct (map (\<lambda>(pubid, title, pdate, venue, authors). (pubid, title, pdate, venue))
               (list_all_publications d))"
proof -
  have "distinct (map fst (group_by k rs))" for k :: "'r \<Rightarrow> 'k" and rs
    by (rule distinct_group_by)
  then show ?thesis
    unfolding list_all_publications_def distinct_map_order_by
    by (simp add: comp_def case_prod_unfold)
qed

text \<open>
  C8 (as the code has it). With the grant keys and the publication keys distinct, the
  grant roster has one row for each grant, showing the titles of its funded projects, one
  for each funding link and equal titles kept, or \<open>None\<close> when there is none; the
  publication roster has one row for each publication, showing the names of its authors,
  one for each authorship link and equal names kept, in the order of the names, or
  \<open>No authors\<close> when there is none.
\<close>

theorem rosters_list_every_link:
  assumes "distinct (map gr_GID (GRANT_TABLE d))" and "distinct (map pub_PubID (PUBLICATION d))"
  shows "mset (list_all_grants d) =
           mset (map (\<lambda>g. (gr_GID g, gr_Source g, gr_Budget g, gr_StartDate g, gr_Duration g,
                              shown_list ''None'' (funded_titles d (gr_GID g))))
                   (GRANT_TABLE d))
       \<and> mset (list_all_publications d) =
           mset (map (\<lambda>pub. (pub_PubID pub, pub_Title pub, pub_PubDate pub, pub_Venue pub,
                                shown_list ''No authors''
                                  (order_by (\<le>) (author_names d (pub_PubID pub)))))
                   (PUBLICATION d))
       \<and> sorted (order_by (\<le>) (author_names d pubid))
       \<and> mset (order_by (\<le>) (author_names d pubid)) = mset (author_names d pubid)"
proof -
  let ?G = "\<lambda>g. (gr_GID g, gr_Source g, gr_Budget g, gr_StartDate g, gr_Duration g,
                  shown_list ''None'' (funded_titles d (gr_GID g)))"
  let ?P = "\<lambda>pub. (pub_PubID pub, pub_Title pub, pub_PubDate pub, pub_Venue pub,
                    shown_list ''No authors'' (order_by (\<le>) (author_names d (pub_PubID pub))))"
  have "distinct (map fst (map ?G (GRANT_TABLE d)))"
    using assms(1) by (simp add: comp_def)
  with list_all_grants_distinct [of d]
  have 1: "mset (list_all_grants d) = mset (map ?G (GRANT_TABLE d))"
    by (rule mset_eq_of_set_eq) (simp only: list_all_grants_set [OF assms(1)] set_map)
  have "distinct (map fst (map ?P (PUBLICATION d)))"
    using assms(2) by (simp add: comp_def)
  with list_all_publications_distinct [of d]
  have 2: "mset (list_all_publications d) = mset (map ?P (PUBLICATION d))"
    by (rule mset_eq_of_set_eq) (simp only: list_all_publications_set [OF assms(2)] set_map)
  have "sorted_wrt (\<le>) (order_by (\<le>) (author_names d pubid))"
    by (rule sorted_wrt_order_by) auto
  then have 3: "sorted (order_by (\<le>) (author_names d pubid))" by simp
  have 4: "mset (order_by (\<le>) (author_names d pubid)) = mset (author_names d pubid)"
    by (rule mset_order_by)
  from 1 2 3 4 show ?thesis by (intro conjI)
qed

theorem rosters_list_every_link_witness:
  "mset (list_all_grants namesake_db) =
     {#(1, ''NSF'', 50000, (2021, 1, 1), 36, ''Robotics, Robotics''),
       (2, ''DOE'', 20000, (2024, 1, 1), 12, ''None'')#}
   \<and> mset (list_all_publications namesake_db) =
     {#(1, ''Survey'', (2023, 5, 1), ''ICRA'', ''Alex Kim, Alex Kim''),
       (2, ''Draft'', (2024, 5, 1), ''Notes'', ''No authors'')#}"
proof -
  have h: "distinct (map gr_GID (GRANT_TABLE namesake_db))"
    "distinct (map pub_PubID (PUBLICATION namesake_db))"
    by (simp_all add: namesake_db_def empty_db_def)
  have g: "map (\<lambda>g. (gr_GID g, gr_Source g, gr_Budget g, gr_StartDate g, gr_Duration g,
                              shown_list ''None'' (funded_titles namesake_db (gr_GID g))))
                   (GRANT_TABLE namesake_db) =
       [(1, ''NSF'', 50000, (2021, 1, 1), 36, ''Robotics, Robotics''),
        (2, ''DOE'', 20000, (2024, 1, 1), 12, ''None'')]"
    by (simp add: shown_list_def funded_titles_def namesake_db_def empty_db_def)
  have p: "map (\<lambda>pub. (pub_PubID pub, pub_Title pub, pub_PubDate pub, pub_Venue pub,
                                shown_list ''No authors''
                                  (order_by (\<le>) (author_names namesake_db (pub_PubID pub)))))
                   (PUBLICATION namesake_db) =
       [(1, ''Survey'', (2023, 5, 1), ''ICRA'', ''Alex Kim, Alex Kim''),
        (2, ''Draft'', (2024, 5, 1), ''Notes'', ''No authors'')]"
    by (simp add: shown_list_def author_names_def order_by_def namesake_db_def empty_db_def)
  from rosters_list_every_link [OF h, of 1] show ?thesis
    by (simp only: g p mset.simps)
qed

end
